theory Spec2Isabelle
  imports Main "HOL-Library.Char_ord" "HOL-Library.List_Lexorder" "HOL-Library.Multiset"
begin

section \<open>makeprojects: enumerations (enums.py)\<close>

subsection \<open>PlatformTypes\<close>

text \<open>
  \<^verbatim>\<open>class PlatformTypes(AutoIntEnum)\<close>: the members in declaration order. The
  metaclass \<^verbatim>\<open>AutoEnum\<close> numbers them from 0, so \<^verbatim>\<open>windows\<close> has the integer
  value 0.
\<close>

datatype PlatformTypes =
    windows | win32 | win64
  | macosx | macosxppc32 | macosxppc64 | macosxintel32 | macosxintel64
  | macos9 | macos968k | macos9ppc | maccarbon | maccarbon68k | maccarbonppc
  | ios | ios32 | ios64 | iosemu | iosemu32 | iosemu64
  | xbox | xbox360 | xboxone
  | ps3 | ps4 | vita
  | wiiu | switch | dsi | ds
  | android | shield | amico | ouya
  | androidarm32 | androidarm64 | androidintel32 | androidintel64
  | linux
  | msdos | msdos4gw | msdosx32
  | beos | iigs

definition is_windows :: "PlatformTypes \<Rightarrow> bool" where
  "is_windows self \<longleftrightarrow> self \<in> set [windows, win32, win64]"

definition is_macosx :: "PlatformTypes \<Rightarrow> bool" where
  "is_macosx self \<longleftrightarrow>
     self \<in> set [macosx, macosxppc32, macosxppc64, macosxintel32, macosxintel64]"

definition is_ios :: "PlatformTypes \<Rightarrow> bool" where
  "is_ios self \<longleftrightarrow> self \<in> set [ios, ios32, ios64, iosemu, iosemu32, iosemu64]"

definition is_macos_carbon :: "PlatformTypes \<Rightarrow> bool" where
  "is_macos_carbon self \<longleftrightarrow> self \<in> set [maccarbon, maccarbon68k, maccarbonppc]"

definition is_macos_classic :: "PlatformTypes \<Rightarrow> bool" where
  "is_macos_classic self \<longleftrightarrow> self \<in> set [macos9, macos968k, macos9ppc]"

definition is_macos :: "PlatformTypes \<Rightarrow> bool" where
  "is_macos self \<longleftrightarrow> is_macos_classic self \<or> is_macos_carbon self"

definition is_msdos :: "PlatformTypes \<Rightarrow> bool" where
  "is_msdos self \<longleftrightarrow> self \<in> set [msdos, msdos4gw, msdosx32]"

definition is_android :: "PlatformTypes \<Rightarrow> bool" where
  "is_android self \<longleftrightarrow>
     self \<in> set [android, shield, ouya, amico, androidarm32,
                 androidarm64, androidintel32, androidintel64]"

text \<open>
  \<^verbatim>\<open>PlatformTypes.match(self, second)\<close>: the chain of early returns, in the
  source's order.
\<close>

definition match :: "PlatformTypes \<Rightarrow> PlatformTypes \<Rightarrow> bool" where
  "match self second =
     (if self = second then True
      else if self = windows \<or> second = windows then is_windows self = is_windows second
      else if self = macosx \<or> second = macosx then is_macosx self = is_macosx second
      else if self = macos9 \<or> second = macos9
        then is_macos_classic self = is_macos_classic second
      else if self = maccarbon \<or> second = maccarbon
        then is_macos_carbon self = is_macos_carbon second
      else if self = ios \<or> second = ios then is_ios self = is_ios second
      else if self = msdos \<or> second = msdos then is_msdos self = is_msdos second
      else if self = android \<or> second = android then is_android self = is_android second
      else False)"

text \<open>The dictionary \<^verbatim>\<open>_PLATFORMTYPES_EXPANDED\<close>, as an association list.\<close>

definition PLATFORMTYPES_EXPANDED :: "(PlatformTypes \<times> PlatformTypes list) list" where
  "PLATFORMTYPES_EXPANDED =
     [(windows, [win32, win64]),
      (msdos, [msdosx32, msdos4gw]),
      (macosx, [macosxppc32, macosxppc64, macosxintel32, macosxintel64]),
      (macos9, [macos968k, macos9ppc]),
      (maccarbon, [maccarbon68k, maccarbonppc]),
      (ios, [ios32, ios64]),
      (iosemu, [iosemu32, iosemu64]),
      (android, [androidarm32, androidarm64, androidintel32, androidintel64])]"

text \<open>\<^verbatim>\<open>get_expanded\<close> is \<^verbatim>\<open>_PLATFORMTYPES_EXPANDED.get(self, [self])\<close>.\<close>

definition get_expanded :: "PlatformTypes \<Rightarrow> PlatformTypes list" where
  "get_expanded self =
     (case map_of PLATFORMTYPES_EXPANDED self of None \<Rightarrow> [self] | Some ms \<Rightarrow> ms)"

definition is_expandable :: "PlatformTypes \<Rightarrow> bool" where
  "is_expandable self \<longleftrightarrow> self \<in> set (map fst PLATFORMTYPES_EXPANDED)"

text \<open>
  The host probes \<^verbatim>\<open>get_windows_host_type()\<close> and \<^verbatim>\<open>get_mac_host_type()\<close> of
  the external package \<^verbatim>\<open>burger\<close> return \<^verbatim>\<open>False\<close> or a CPU name. Their results
  are inputs of the model; \<open>truthy\<close> is Python's truth value of such a result.
\<close>

datatype host_probe = ProbeFalse | ProbeStr string

fun truthy :: "host_probe \<Rightarrow> bool" where
  "truthy ProbeFalse = False"
| "truthy (ProbeStr s) = (s \<noteq> [])"

text \<open>The local dictionary \<^verbatim>\<open>mac_table\<close> of \<^verbatim>\<open>PlatformTypes.default\<close>.\<close>

definition mac_table :: "(string \<times> PlatformTypes) list" where
  "mac_table = [(''ppc'', macosxppc32), (''ppc64'', macosxppc64),
                (''x32'', macosxintel32), (''x64'', macosxintel64)]"

definition mac_table_get :: "host_probe \<Rightarrow> PlatformTypes" where
  "mac_table_get temp =
     (case temp of
        ProbeFalse \<Rightarrow> macosxintel64
      | ProbeStr s \<Rightarrow> (case map_of mac_table s of None \<Rightarrow> macosxintel64 | Some p \<Rightarrow> p))"

text \<open>
  \<^verbatim>\<open>PlatformTypes.default()\<close>, with the two probe results as arguments. In the Mac
  branch the source evaluates \<^verbatim>\<open>mac_table.get(temp, ...)\<close> as an expression
  statement: the value \<open>discarded\<close> is computed and dropped, and control falls through
  to \<^verbatim>\<open>return PlatformTypes.linux\<close>.
\<close>

definition PlatformTypes_default :: "host_probe \<Rightarrow> host_probe \<Rightarrow> PlatformTypes" where
  "PlatformTypes_default windows_host mac_host =
     (if truthy windows_host
      then (if windows_host = ProbeStr ''x64'' then win64 else win32)
      else if truthy mac_host
        then (let discarded = mac_table_get mac_host in linux)
      else linux)"

subsection \<open>Python values reaching the lookup functions\<close>

text \<open>
  The argument of a \<^verbatim>\<open>lookup\<close> is a member of the enumeration, a string or
  \<^verbatim>\<open>None\<close>. The only exception the lookups can raise on such an argument is the
  \<^verbatim>\<open>KeyError\<close> of \<^verbatim>\<open>Enum.__getitem__\<close>.
\<close>

datatype 'a lookup_arg = Member 'a | Name string | PyNone

datatype py_error = KeyError

text \<open>
  \<^verbatim>\<open>AutoEnum.__new__\<close> gives the members the values 0, 1, 2, ... in declaration
  order: the value of a member is its position in the member table.
\<close>

definition enum_value :: "(string \<times> 'a) list \<Rightarrow> 'a \<Rightarrow> nat" where
  "enum_value members m = length (takeWhile (\<lambda>(n, x). x \<noteq> m) members)"

text \<open>
  Python's truth value of the argument, as \<^verbatim>\<open>if name:\<close> tests it. The
  enumerations derive from \<^verbatim>\<open>IntEnum\<close>, so a member is true exactly when its
  integer value is not 0; a string is true when it is not empty.
\<close>

fun arg_truth :: "(string \<times> 'a) list \<Rightarrow> 'a lookup_arg \<Rightarrow> bool" where
  "arg_truth members (Member m) = (enum_value members m \<noteq> 0)"
| "arg_truth members (Name s) = (s \<noteq> [])"
| "arg_truth members PyNone = False"

text \<open>\<^verbatim>\<open>str.lower()\<close> on ASCII text: only the letters A to Z change.\<close>

definition lower_table :: "(char \<times> char) list" where
  "lower_table = zip ''ABCDEFGHIJKLMNOPQRSTUVWXYZ'' ''abcdefghijklmnopqrstuvwxyz''"

definition lower_char :: "char \<Rightarrow> char" where
  "lower_char ch = (case map_of lower_table ch of None \<Rightarrow> ch | Some l \<Rightarrow> l)"

definition lower :: "string \<Rightarrow> string" where
  "lower s = map lower_char s"

text \<open>
  \<^verbatim>\<open>hasattr(cls, name)\<close> holds for a member name, for a name the class body
  declares, and for a name the class inherits from \<^verbatim>\<open>IntEnum\<close> and \<^verbatim>\<open>int\<close>.
  The inherited names belong to the Python runtime; they are the parameter
  \<open>inherited\<close>. \<^verbatim>\<open>cls[name]\<close> raises \<^verbatim>\<open>KeyError\<close> unless \<open>name\<close> is a member
  name.
\<close>

definition hasattr :: "(string \<times> 'a) list \<Rightarrow> string list \<Rightarrow> string list \<Rightarrow> string \<Rightarrow> bool" where
  "hasattr members declared inherited name \<longleftrightarrow>
     name \<in> set (map fst members) \<or> name \<in> set declared \<or> name \<in> set inherited"

definition getitem :: "(string \<times> 'a) list \<Rightarrow> string \<Rightarrow> py_error + 'a option" where
  "getitem members name =
     (case map_of members name of None \<Rightarrow> Inl KeyError | Some m \<Rightarrow> Inr (Some m))"

subsection \<open>ProjectTypes\<close>

datatype ProjectTypes =
    library | tool | app | screensaver | sharedlibrary | empty_project

definition ProjectTypes_members :: "(string \<times> ProjectTypes) list" where
  "ProjectTypes_members =
     [(''library'', library),
      (''tool'', tool),
      (''app'', app),
      (''screensaver'', screensaver),
      (''sharedlibrary'', sharedlibrary),
      (''empty'', empty_project)]"

definition PROJECTTYPES_READABLE :: "(ProjectTypes \<times> string) list" where
  "PROJECTTYPES_READABLE =
     [(library, ''Library''),
      (tool, ''Tool''),
      (app, ''Application''),
      (screensaver, ''ScreenSaver''),
      (sharedlibrary, ''Dynamic Library''),
      (empty_project, ''Empty'')]"

definition ProjectTypes_declared :: "string list" where
  "ProjectTypes_declared = [''lookup'', ''default'', ''__repr__'', ''__str__'']"

text \<open>
  \<^verbatim>\<open>ProjectTypes.lookup\<close>. The member test uses the argument as given
  (\<^verbatim>\<open>hasattr(ProjectTypes, project_type_name)\<close>), the later tests the lowercased
  \<^verbatim>\<open>test_name\<close>. \<^verbatim>\<open>str(item)\<close> is the entry of \<^verbatim>\<open>_PROJECTTYPES_READABLE\<close>,
  which the loop visits in the table's order.
\<close>

definition ProjectTypes_lookup ::
  "string list \<Rightarrow> ProjectTypes lookup_arg \<Rightarrow> py_error + ProjectTypes option" where
  "ProjectTypes_lookup inherited project_type_name =
     (if arg_truth ProjectTypes_members project_type_name then
        (case project_type_name of
           Member m \<Rightarrow> Inr (Some m)
         | PyNone \<Rightarrow> Inr None
         | Name s \<Rightarrow>
             (let test_name = lower s in
              if hasattr ProjectTypes_members ProjectTypes_declared inherited s
                then getitem ProjectTypes_members s
              else
                (case find (\<lambda>(item, readable). test_name = lower readable)
                        PROJECTTYPES_READABLE of
                   Some (item, readable) \<Rightarrow> Inr (Some item)
                 | None \<Rightarrow>
                     if test_name \<in> set [''lib''] then Inr (Some library)
                     else if test_name \<in> set [''game''] then Inr (Some app)
                     else if test_name \<in> set [''dll''] then Inr (Some sharedlibrary)
                     else Inr None)))
      else Inr None)"

text \<open>\<^verbatim>\<open>configuration_short_code\<close>: the three letter code of a configuration name.\<close>

definition configuration_short_code :: "string \<Rightarrow> string option" where
  "configuration_short_code configuration_name =
     map_of [(''Debug'', ''dbg''), (''Release'', ''rel''), (''Internal'', ''int''),
             (''Profile'', ''pro''), (''Release_LTCG'', ''ltc''),
             (''CodeAnalysis'', ''cod''), (''Profile_FastCap'', ''fas'')]
       configuration_name"

subsection \<open>IDETypes\<close>

datatype IDETypes =
    vs2003 | vs2005 | vs2008 | vs2010 | vs2012 | vs2013
  | vs2015 | vs2017 | vs2019 | watcom | codewarrior50 | codewarrior58
  | codewarrior59 | xcode3 | xcode4 | xcode5 | xcode6 | xcode7
  | xcode8 | xcode9 | xcode10 | codeblocks | nmake | make
  | bazel

definition IDETypes_members :: "(string \<times> IDETypes) list" where
  "IDETypes_members =
     [(''vs2003'', vs2003),
      (''vs2005'', vs2005),
      (''vs2008'', vs2008),
      (''vs2010'', vs2010),
      (''vs2012'', vs2012),
      (''vs2013'', vs2013),
      (''vs2015'', vs2015),
      (''vs2017'', vs2017),
      (''vs2019'', vs2019),
      (''watcom'', watcom),
      (''codewarrior50'', codewarrior50),
      (''codewarrior58'', codewarrior58),
      (''codewarrior59'', codewarrior59),
      (''xcode3'', xcode3),
      (''xcode4'', xcode4),
      (''xcode5'', xcode5),
      (''xcode6'', xcode6),
      (''xcode7'', xcode7),
      (''xcode8'', xcode8),
      (''xcode9'', xcode9),
      (''xcode10'', xcode10),
      (''codeblocks'', codeblocks),
      (''nmake'', nmake),
      (''make'', make),
      (''bazel'', bazel)]"

definition IDETYPES_CODES :: "(IDETypes \<times> string) list" where
  "IDETYPES_CODES =
     [(vs2003, ''vc7''),
      (vs2005, ''vc8''),
      (vs2008, ''vc9''),
      (vs2010, ''v10''),
      (vs2012, ''v12''),
      (vs2013, ''v13''),
      (vs2015, ''v15''),
      (vs2017, ''v17''),
      (vs2019, ''v19''),
      (watcom, ''wat''),
      (codewarrior50, ''c50''),
      (codewarrior58, ''c58''),
      (codewarrior59, ''c59''),
      (xcode3, ''xc3''),
      (xcode4, ''xc4''),
      (xcode5, ''xc5''),
      (xcode6, ''xc6''),
      (xcode7, ''xc7''),
      (xcode8, ''xc8''),
      (xcode9, ''xc9''),
      (xcode10, ''x10''),
      (codeblocks, ''cdb''),
      (nmake, ''nmk''),
      (make, ''mak''),
      (bazel, ''bzl'')]"

definition IDETYPES_READABLE :: "(IDETypes \<times> string) list" where
  "IDETYPES_READABLE =
     [(vs2003, ''Visual Studio 2003''),
      (vs2005, ''Visual Studio 2005''),
      (vs2008, ''Visual Studio 2008''),
      (vs2010, ''Visual Studio 2010''),
      (vs2012, ''Visual Studio 2012''),
      (vs2013, ''Visual Studio 2013''),
      (vs2015, ''Visual Studio 2015''),
      (vs2017, ''Visual Studio 2017''),
      (vs2019, ''Visual Studio 2019''),
      (watcom, ''Open Watcom 1.9 wmake''),
      (codewarrior50, ''CodeWarrior 9''),
      (codewarrior58, ''CodeWarrior 10''),
      (codewarrior59, ''Freescale CodeWarrior 5.9''),
      (xcode3, ''XCode 3.1.4''),
      (xcode4, ''XCode 4''),
      (xcode5, ''XCode 5''),
      (xcode6, ''XCode 6''),
      (xcode7, ''XCode 7''),
      (xcode8, ''XCode 8''),
      (xcode9, ''XCode 9''),
      (xcode10, ''XCode 10''),
      (codeblocks, ''CodeBlocks 13.12''),
      (nmake, ''GNU make''),
      (make, ''Linux make''),
      (bazel, ''Bazel build'')]"

definition IDETypes_declared :: "string list" where
  "IDETypes_declared =
     [''get_short_code'', ''is_visual_studio'', ''is_xcode'', ''is_codewarrior'',
      ''lookup'', ''default'', ''__repr__'', ''__str__'']"

definition is_visual_studio :: "IDETypes \<Rightarrow> bool" where
  "is_visual_studio self \<longleftrightarrow>
     self \<in> set [vs2003, vs2005, vs2005, vs2008, vs2010, vs2012, vs2013, vs2015,
                 vs2017, vs2019]"

definition is_xcode :: "IDETypes \<Rightarrow> bool" where
  "is_xcode self \<longleftrightarrow>
     self \<in> set [xcode3, xcode4, xcode5, xcode6, xcode7, xcode8, xcode9, xcode10]"

definition is_codewarrior :: "IDETypes \<Rightarrow> bool" where
  "is_codewarrior self \<longleftrightarrow> self \<in> set [codewarrior50, codewarrior58, codewarrior59]"

text \<open>
  The toolchain probes of the package \<^verbatim>\<open>burger\<close> are part of the host state.
  \<^verbatim>\<open>get_installed_xcode\<close> iterates over a Python set literal, whose order the
  language does not fix: the order met is the field \<open>xcode_table\<close>.
\<close>

record host_tools =
  where_is_visual_studio :: "int \<Rightarrow> bool"
  where_is_xcode :: "int \<Rightarrow> bool"
  xcode_table :: "(int \<times> IDETypes) list"

definition vs_studio_table :: "(int \<times> IDETypes) list" where
  "vs_studio_table =
     [(2019, vs2019), (2017, vs2017), (2015, vs2015), (2013, vs2013), (2012, vs2012),
      (2010, vs2010), (2008, vs2008), (2005, vs2005), (2003, vs2003)]"

definition get_installed_visual_studio :: "host_tools \<Rightarrow> IDETypes option" where
  "get_installed_visual_studio host =
     map_option snd (find (\<lambda>item. where_is_visual_studio host (fst item)) vs_studio_table)"

definition get_installed_xcode :: "host_tools \<Rightarrow> IDETypes option" where
  "get_installed_xcode host =
     map_option snd (find (\<lambda>item. where_is_xcode host (fst item)) (xcode_table host))"

text \<open>
  \<^verbatim>\<open>IDETypes.lookup\<close>. \<^verbatim>\<open>_IDETYPES_CODES[item]\<close> is defined for every member;
  the three generic-name tests at the end compare the argument as given.
\<close>

definition code_of :: "('a \<times> string) list \<Rightarrow> 'a \<Rightarrow> string option" where
  "code_of codes item = map_of codes item"

definition IDETypes_lookup ::
  "host_tools \<Rightarrow> string list \<Rightarrow> IDETypes lookup_arg \<Rightarrow> py_error + IDETypes option" where
  "IDETypes_lookup host inherited ide_name =
     (if arg_truth IDETypes_members ide_name then
        (case ide_name of
           Member m \<Rightarrow> Inr (Some m)
         | PyNone \<Rightarrow> Inr None
         | Name s \<Rightarrow>
             (let test_name = lower s in
              if hasattr IDETypes_members IDETypes_declared inherited test_name
                then getitem IDETypes_members test_name
              else
                (case find (\<lambda>(item, readable).
                         test_name = lower readable \<or>
                         Some test_name = code_of IDETYPES_CODES item)
                        IDETYPES_READABLE of
                   Some (item, readable) \<Rightarrow> Inr (Some item)
                 | None \<Rightarrow>
                     if s \<in> set [''vs'', ''visualstudio'', ''visual_studio'', ''visual studio'']
                       then Inr (get_installed_visual_studio host)
                     else if s \<in> set [''xcode''] then Inr (get_installed_xcode host)
                     else if s \<in> set [''codewarrior'', ''metrowerks'', ''cw'', ''freescale'']
                       then Inr (Some codewarrior50)
                     else Inr None)))
      else Inr None)"

subsection \<open>PlatformTypes.lookup\<close>

definition PlatformTypes_members :: "(string \<times> PlatformTypes) list" where
  "PlatformTypes_members =
     [(''windows'', windows),
      (''win32'', win32),
      (''win64'', win64),
      (''macosx'', macosx),
      (''macosxppc32'', macosxppc32),
      (''macosxppc64'', macosxppc64),
      (''macosxintel32'', macosxintel32),
      (''macosxintel64'', macosxintel64),
      (''macos9'', macos9),
      (''macos968k'', macos968k),
      (''macos9ppc'', macos9ppc),
      (''maccarbon'', maccarbon),
      (''maccarbon68k'', maccarbon68k),
      (''maccarbonppc'', maccarbonppc),
      (''ios'', ios),
      (''ios32'', ios32),
      (''ios64'', ios64),
      (''iosemu'', iosemu),
      (''iosemu32'', iosemu32),
      (''iosemu64'', iosemu64),
      (''xbox'', xbox),
      (''xbox360'', xbox360),
      (''xboxone'', xboxone),
      (''ps3'', ps3),
      (''ps4'', ps4),
      (''vita'', vita),
      (''wiiu'', wiiu),
      (''switch'', switch),
      (''dsi'', dsi),
      (''ds'', ds),
      (''android'', android),
      (''shield'', shield),
      (''amico'', amico),
      (''ouya'', ouya),
      (''androidarm32'', androidarm32),
      (''androidarm64'', androidarm64),
      (''androidintel32'', androidintel32),
      (''androidintel64'', androidintel64),
      (''linux'', linux),
      (''msdos'', msdos),
      (''msdos4gw'', msdos4gw),
      (''msdosx32'', msdosx32),
      (''beos'', beos),
      (''iigs'', iigs)]"

definition PLATFORMTYPES_CODES :: "(PlatformTypes \<times> string) list" where
  "PLATFORMTYPES_CODES =
     [(windows, ''win''),
      (win32, ''w32''),
      (win64, ''w64''),
      (macosx, ''osx''),
      (macosxppc32, ''osxp32''),
      (macosxppc64, ''osxp64''),
      (macosxintel32, ''osxx86''),
      (macosxintel64, ''osxx64''),
      (macos9, ''mac''),
      (macos968k, ''mac68k''),
      (macos9ppc, ''macppc''),
      (maccarbon, ''car''),
      (maccarbon68k, ''car68k''),
      (maccarbonppc, ''carppc''),
      (ios, ''ios''),
      (ios32, ''iosa32''),
      (ios64, ''iosa64''),
      (iosemu, ''ioe''),
      (iosemu32, ''ioex86''),
      (iosemu64, ''ioex64''),
      (xbox, ''xbx''),
      (xbox360, ''x36''),
      (xboxone, ''one''),
      (ps3, ''ps3''),
      (ps4, ''ps4''),
      (vita, ''vit''),
      (wiiu, ''wiu''),
      (switch, ''swi''),
      (dsi, ''dsi''),
      (ds, ''2ds''),
      (android, ''and''),
      (shield, ''shi''),
      (amico, ''ami''),
      (ouya, ''oya''),
      (androidarm32, ''anda32''),
      (androidarm64, ''anda64''),
      (androidintel32, ''andx32''),
      (androidintel64, ''andx64''),
      (linux, ''lnx''),
      (msdos, ''dos''),
      (msdos4gw, ''dos4gw''),
      (msdosx32, ''dosx32''),
      (beos, ''beo''),
      (iigs, ''2gs'')]"

definition PLATFORMTYPES_READABLE :: "(PlatformTypes \<times> string) list" where
  "PLATFORMTYPES_READABLE =
     [(windows, ''Microsoft Windows x86 and x64''),
      (win32, ''Microsoft Windows x86''),
      (win64, ''Microsoft Windows x64''),
      (macosx, ''Apple macOS all CPUs''),
      (macosxppc32, ''Apple macOS PowerPC 32''),
      (macosxppc64, ''Apple macOS PowerPC 64''),
      (macosxintel32, ''Apple macOS x86''),
      (macosxintel64, ''Apple macOS x64''),
      (macos9, ''Apple MacOS 9 PPC and 68k''),
      (macos968k, ''Apple MacOS 9 68k''),
      (macos9ppc, ''Apple MacOS 9 PowerPC 32''),
      (maccarbon, ''Apple MacOS Carbon''),
      (maccarbon68k, ''Apple MacOS Carbon 68k''),
      (maccarbonppc, ''Apple MacOS Carbon PowerPC 32''),
      (ios, ''Apple iOS''),
      (ios32, ''Apple iOS ARM 32''),
      (ios64, ''Apple iOS ARM 64''),
      (iosemu, ''Apple iOS Emulator''),
      (iosemu32, ''Apple iOS Emulator x86''),
      (iosemu64, ''Apple iOS Emulator x64''),
      (xbox, ''Microsoft Xbox''),
      (xbox360, ''Microsoft Xbox 360''),
      (xboxone, ''Microsoft Xbox ONE''),
      (ps3, ''Sony PS3''),
      (ps4, ''Sony PS4''),
      (vita, ''Sony Playstation Vita''),
      (wiiu, ''Nintendo WiiU''),
      (switch, ''Nintendo Switch''),
      (dsi, ''Nintendo DSI''),
      (ds, ''Nintendo 2DS''),
      (android, ''Google Android''),
      (shield, ''nVidia Shield''),
      (amico, ''Intellivision Amico''),
      (ouya, ''Ouya''),
      (androidarm32, ''Android ARM 32''),
      (androidarm64, ''Android ARM 64''),
      (androidintel32, ''Android x86''),
      (androidintel64, ''Android x64''),
      (linux, ''Linux''),
      (msdos, ''MSDos DOS4GW and X32''),
      (msdos4gw, ''MSDos DOS4GW''),
      (msdosx32, ''MSDos X32''),
      (beos, ''BeOS''),
      (iigs, ''Apple IIgs'')]"

definition PLATFORMTYPES_VS :: "(PlatformTypes \<times> string list) list" where
  "PLATFORMTYPES_VS =
     [(windows, [''Win32'', ''x64'']),
      (win32, [''Win32'']),
      (win64, [''x64'']),
      (xbox, [''Xbox'']),
      (xbox360, [''Xbox 360'']),
      (xboxone, [''Xbox ONE'']),
      (ps3, [''PS3'']),
      (ps4, [''ORBIS'']),
      (vita, [''PSVita'']),
      (wiiu, [''Cafe'']),
      (dsi, [''CTR'']),
      (switch, [''Switch'']),
      (android, [''Android'']),
      (shield, [''Tegra-Android'', ''ARM-Android-NVIDIA'', ''AArch64-Android-NVIDIA'',
                ''x86-Android-NVIDIA'', ''x64-Android-NVIDIA'']),
      (androidarm32, [''ARM-Android-NVIDIA'']),
      (androidarm64, [''AArch64-Android-NVIDIA'']),
      (androidintel32, [''x86-Android-NVIDIA'']),
      (androidintel64, [''x64-Android-NVIDIA''])]"

definition get_short_code :: "PlatformTypes \<Rightarrow> string option" where
  "get_short_code self = map_of PLATFORMTYPES_CODES self"

definition get_vs_platform :: "PlatformTypes \<Rightarrow> string list" where
  "get_vs_platform self = (case map_of PLATFORMTYPES_VS self of None \<Rightarrow> [] | Some l \<Rightarrow> l)"

definition PlatformTypes_declared :: "string list" where
  "PlatformTypes_declared =
     [''get_short_code'', ''is_windows'', ''is_macosx'', ''is_ios'', ''is_macos'',
      ''is_macos_carbon'', ''is_macos_classic'', ''is_msdos'', ''is_android'', ''match'',
      ''get_vs_platform'', ''get_expanded'', ''is_expandable'', ''lookup'', ''default'',
      ''__repr__'', ''__str__'']"

text \<open>
  One pass of the loop body of \<^verbatim>\<open>PlatformTypes.lookup\<close> for the table entry
  \<open>item\<close>: the readable name, the short code, then (for a platform that is not a
  family) its Visual Studio names.
\<close>

definition platform_item_matches :: "string \<Rightarrow> PlatformTypes \<times> string \<Rightarrow> bool" where
  "platform_item_matches test_name entry =
     (case entry of (item, readable) \<Rightarrow>
        test_name = lower readable \<or> Some test_name = code_of PLATFORMTYPES_CODES item \<or>
        (\<not> is_expandable item \<and>
         list_ex (\<lambda>vs_name. test_name = lower vs_name) (get_vs_platform item)))"

definition PlatformTypes_lookup ::
  "string list \<Rightarrow> PlatformTypes lookup_arg \<Rightarrow> py_error + PlatformTypes option" where
  "PlatformTypes_lookup inherited platform_name =
     (if arg_truth PlatformTypes_members platform_name then
        (case platform_name of
           Member m \<Rightarrow> Inr (Some m)
         | PyNone \<Rightarrow> Inr None
         | Name s \<Rightarrow>
             (let test_name = lower s in
              if hasattr PlatformTypes_members PlatformTypes_declared inherited test_name
                then getitem PlatformTypes_members test_name
              else
                (case find (platform_item_matches test_name) PLATFORMTYPES_READABLE of
                   Some (item, readable) \<Rightarrow> Inr (Some item)
                 | None \<Rightarrow> Inr None)))
      else Inr None)"


section \<open>Source files (__init__.py and core.py)\<close>

subsection \<open>FileTypes\<close>

text \<open>
  \<^verbatim>\<open>enums.FileTypes\<close>. The members carry the prefix \<open>ft_\<close>, since the source's
  one-letter names (\<^verbatim>\<open>c\<close>, \<^verbatim>\<open>h\<close>, \<^verbatim>\<open>m\<close>, \<^verbatim>\<open>r\<close>) would take the names of
  variables, and \<^verbatim>\<open>library\<close> is a member of \<open>ProjectTypes\<close> too.
\<close>

datatype FileTypes =
    ft_user | ft_generic | ft_c | ft_cpp | ft_h | ft_m | ft_xml | ft_rc | ft_r
  | ft_hlsl | ft_glsl | ft_x360sl | ft_vitacg | ft_frameworks | ft_library | ft_exe
  | ft_xcconfig | ft_x86 | ft_x64 | ft_a65 | ft_ppc | ft_a68 | ft_image | ft_ico | ft_icns

subsection \<open>Characters that a string literal cannot hold\<close>

definition bslash :: char where
  "bslash = CHR 0x5C"

definition tab :: char where
  "tab = CHR 0x09"

definition quote :: char where
  "quote = CHR 0x27"

subsection \<open>String operations of Python\<close>

text \<open>\<^verbatim>\<open>s.startswith(p)\<close> and \<^verbatim>\<open>s.endswith(p)\<close>.\<close>

definition startswith :: "string \<Rightarrow> string \<Rightarrow> bool" where
  "startswith s p \<longleftrightarrow> take (length p) s = p"

definition endswith :: "string \<Rightarrow> string \<Rightarrow> bool" where
  "endswith s p \<longleftrightarrow> length p \<le> length s \<and> drop (length s - length p) s = p"

text \<open>
  \<^verbatim>\<open>s.rfind(ch)\<close> for a one-character string: the index of the last occurrence,
  \<open>None\<close> where Python returns -1.
\<close>

fun rfind :: "string \<Rightarrow> char \<Rightarrow> nat option" where
  "rfind [] ch = None"
| "rfind (x # xs) ch =
     (case rfind xs ch of
        Some i \<Rightarrow> Some (Suc i)
      | None \<Rightarrow> if x = ch then Some 0 else None)"

text \<open>
  \<^verbatim>\<open>convert_to_windows_slashes\<close> and \<^verbatim>\<open>convert_to_linux_slashes\<close> belong to the
  external package \<^verbatim>\<open>burger\<close>: every slash becomes a backslash, and back.
\<close>

definition convert_to_windows_slashes :: "string \<Rightarrow> string" where
  "convert_to_windows_slashes s = map (\<lambda>ch. if ch = CHR ''/'' then bslash else ch) s"

definition convert_to_linux_slashes :: "string \<Rightarrow> string" where
  "convert_to_linux_slashes s = map (\<lambda>ch. if ch = bslash then CHR ''/'' else ch) s"

subsection \<open>SourceFile of __init__.py\<close>

record SourceFile =
  filename :: string
  directory :: string
  filetype :: FileTypes

text \<open>\<^verbatim>\<open>SourceFile.__init__\<close>; the argument \<open>filetype\<close> is a \<open>FileTypes\<close> by its type.\<close>

definition SourceFile_init :: "string \<Rightarrow> string \<Rightarrow> FileTypes \<Rightarrow> SourceFile" where
  "SourceFile_init relativepathname dir ft =
     \<lparr>filename = convert_to_windows_slashes relativepathname, directory = dir,
      filetype = ft\<rparr>"

lemma startswith_nonempty: "startswith s (x # p) \<Longrightarrow> 0 < length s"
  by (cases s) (auto simp: startswith_def)

text \<open>The loop \<^verbatim>\<open>while newname.startswith('..' + slash): newname = newname[3:]\<close>.\<close>

function strip_dotdot :: "char \<Rightarrow> string \<Rightarrow> string" where
  "strip_dotdot slash newname =
     (if startswith newname (''..'' @ [slash]) then strip_dotdot slash (drop 3 newname)
      else newname)"
  by pat_completeness auto
termination
  by (relation "measure (\<lambda>(slash, newname). length newname)")
    (auto dest!: startswith_nonempty)

text \<open>The loop \<^verbatim>\<open>while newname.startswith('.' + slash): newname = newname[2:]\<close>.\<close>

function strip_dot :: "char \<Rightarrow> string \<Rightarrow> string" where
  "strip_dot slash newname =
     (if startswith newname (''.'' @ [slash]) then strip_dot slash (drop 2 newname)
      else newname)"
  by pat_completeness auto
termination
  by (relation "measure (\<lambda>(slash, newname). length newname)")
    (auto dest!: startswith_nonempty)

text \<open>
  \<^verbatim>\<open>SourceFile.extractgroupname\<close> of \<^verbatim>\<open>__init__.py\<close>: the base name is cut off at
  the last backslash (or, if there is none, at the last slash), and only then are the
  prefixes removed.
\<close>

definition extractgroupname :: "SourceFile \<Rightarrow> string" where
  "extractgroupname self =
     (case rfind (filename self) bslash of
        Some index \<Rightarrow> strip_dot bslash (strip_dotdot bslash (take index (filename self)))
      | None \<Rightarrow>
          (case rfind (filename self) (CHR ''/'') of
             Some index \<Rightarrow>
               strip_dot (CHR ''/'') (strip_dotdot (CHR ''/'') (take index (filename self)))
           | None \<Rightarrow> []))"

subsection \<open>SourceFile of core.py\<close>

text \<open>
  \<^verbatim>\<open>core.py\<close> has an enumeration \<^verbatim>\<open>FileTypes\<close> and a class \<^verbatim>\<open>SourceFile\<close> of its
  own; their names carry the prefix \<open>core_\<close> here.
\<close>

datatype core_FileTypes =
    core_user | core_generic | core_cpp | core_h | core_m | core_xml | core_rc | core_r
  | core_hlsl | core_glsl | core_x360sl | core_vitacg | core_frameworks | core_library
  | core_exe | core_xcconfig | core_x86 | core_a65 | core_image | core_ico | core_icns

record core_SourceFile =
  core_filename :: string
  core_directory :: string
  core_type :: core_FileTypes

definition core_SourceFile_init ::
  "string \<Rightarrow> string \<Rightarrow> core_FileTypes \<Rightarrow> core_SourceFile" where
  "core_SourceFile_init fname dir ft =
     \<lparr>core_filename = convert_to_windows_slashes fname, core_directory = dir,
      core_type = ft\<rparr>"

text \<open>
  \<^verbatim>\<open>SourceFile.extractgroupname\<close> of \<^verbatim>\<open>core.py\<close>: only the backslash is a
  separator, and a single \<^verbatim>\<open>.\\\<close> prefix is removed.
\<close>

definition core_extractgroupname :: "core_SourceFile \<Rightarrow> string" where
  "core_extractgroupname self =
     (case rfind (core_filename self) bslash of
        None \<Rightarrow> []
      | Some index \<Rightarrow>
          (let newname = strip_dotdot bslash (take index (core_filename self))
           in if startswith newname (''.'' @ [bslash]) then drop 2 newname else newname))"

section \<open>Configurations and chained attributes\<close>

text \<open>
  The class \<^verbatim>\<open>Configuration\<close> that the emitters and \<^verbatim>\<open>build_rules.py\<close> call
  (\<^verbatim>\<open>configuration.get_chained_value('profile')\<close>,
  \<^verbatim>\<open>configuration.get_unique_chained_list('include_folders_list')\<close>) is not among
  the source files: \<^verbatim>\<open>core.py\<close> holds the older \<^verbatim>\<open>SolutionData\<close>. The values an
  attribute can hold, as the callers use them: unset, a flag, a number, a string, a
  list of strings. An object is seen through \<^verbatim>\<open>getattr(obj, name, None)\<close>.
\<close>

datatype pyval = PNone | PBool bool | PInt int | PStr string | PList "string list"

type_synonym attrs = "string \<Rightarrow> pyval"

text \<open>
  A configuration, with the attributes the Watcom emitter reads directly and the table
  of its other attributes. The back-reference to the owning project is the project's
  attribute table (\<open>None\<close> for a configuration not yet attached to a project).
\<close>

record Configuration =
  cfg_name :: string
  cfg_platform :: PlatformTypes
  cfg_project_type :: ProjectTypes
  short_code :: string
  deploy_folder :: "string option"
  cfg_attrs :: attrs
  cfg_project :: "attrs option"

text \<open>The spec's "unset/empty": \<^verbatim>\<open>None\<close>, an empty list or an empty string.\<close>

fun is_empty :: "pyval \<Rightarrow> bool" where
  "is_empty PNone = True"
| "is_empty (PList l) = (l = [])"
| "is_empty (PStr s) = (s = [])"
| "is_empty v = False"

text \<open>The tables along the chain from the configuration to its project.\<close>

definition chain :: "Configuration \<Rightarrow> attrs list" where
  "chain cfg = cfg_attrs cfg # (case cfg_project cfg of None \<Rightarrow> [] | Some p \<Rightarrow> [p])"

text \<open>
  Modelled from the spec: \<^verbatim>\<open>Configuration.get_chained_value\<close>, which is missing from
  the source files. "Read the configuration's own value; if unset/empty, read the owning
  project's ... value": the walk keeps the first value that is not empty and otherwise
  ends on the last value read.
\<close>

fun first_set :: "pyval \<Rightarrow> pyval list \<Rightarrow> pyval" where
  "first_set v [] = v"
| "first_set v (w # ws) = (if is_empty v then first_set w ws else v)"

definition get_chained_value :: "Configuration \<Rightarrow> string \<Rightarrow> pyval" where
  "get_chained_value cfg name =
     (case map (\<lambda>tbl. tbl name) (chain cfg) of
        [] \<Rightarrow> PNone
      | v # vs \<Rightarrow> first_set v vs)"

fun as_list :: "pyval \<Rightarrow> string list" where
  "as_list (PList l) = l"
| "as_list v = []"

text \<open>
  Modelled from the spec: \<^verbatim>\<open>Configuration.get_chained_list\<close>, which is missing from
  the source files. "Concatenate (never overwrite) when the attribute is list-typed".
\<close>

definition get_chained_list :: "Configuration \<Rightarrow> string \<Rightarrow> string list" where
  "get_chained_list cfg name = concat (map (\<lambda>tbl. as_list (tbl name)) (chain cfg))"

text \<open>
  Modelled from the spec: \<^verbatim>\<open>Configuration.get_unique_chained_list\<close>, which is missing
  from the source files. "Duplicates across the chain are removed while preserving
  first-seen order": the items are visited in order and an item already seen is
  skipped.
\<close>

fun unique_from :: "'a list \<Rightarrow> 'a list \<Rightarrow> 'a list" where
  "unique_from seen [] = seen"
| "unique_from seen (x # xs) = unique_from (if x \<in> set seen then seen else seen @ [x]) xs"

definition get_unique_chained_list :: "Configuration \<Rightarrow> string \<Rightarrow> string list" where
  "get_unique_chained_list cfg name = unique_from [] (get_chained_list cfg name)"

text \<open>
  The list \<open>xs\<close> with every repetition of an earlier item removed, written with the
  library's \<open>remdups\<close> (which keeps the last occurrence, hence the two reversals).
\<close>

definition first_seen :: "'a list \<Rightarrow> 'a list" where
  "first_seen xs = rev (remdups (rev xs))"

text \<open>An example: a Release configuration and the attribute table of its project.\<close>

definition example_project_attrs :: attrs where
  "example_project_attrs =
     (\<lambda>n. PNone)(''define_list'' := PList [''NDEBUG'', ''WIN32''], ''profile'' := PBool True)"

definition example_configuration :: Configuration where
  "example_configuration =
     \<lparr>cfg_name = ''Release'', cfg_platform = win32, cfg_project_type = tool,
      short_code = ''rel'', deploy_folder = None,
      cfg_attrs = (\<lambda>n. PNone)(''define_list'' := PList [''WIN32'', ''_CONSOLE'', ''WIN32'']),
      cfg_project = Some example_project_attrs\<rparr>"

section \<open>The model the emitters walk\<close>

text \<open>
  The emitters read solutions, projects and source files of the newer
  \<^verbatim>\<open>core\<close> module, whose classes are not among the source files. The records hold
  the attributes that \<^verbatim>\<open>watcom.py\<close> and \<^verbatim>\<open>codewarrior.py\<close> read and assign.
\<close>

record CodeFile =
  relative_pathname :: string
  ftype :: FileTypes

text \<open>
  A project: its configurations, the file list \<^verbatim>\<open>codefiles\<close>, and the outcome of
  scanning its source folders for a list of acceptable file types (\<open>resolve_files\<close>,
  an input: it depends on the file system).
\<close>

record Project =
  configuration_list :: "Configuration list"
  codefiles :: "CodeFile list"
  resolve_files :: "FileTypes list \<Rightarrow> CodeFile list"

text \<open>
  Modelled from the spec: \<^verbatim>\<open>Project.get_file_list(acceptable_types)\<close>, which is
  missing from the source files. It resolves the source folders for the acceptable
  types and leaves the result in \<^verbatim>\<open>project.codefiles\<close>, where the emitters read it.
\<close>

definition get_file_list :: "FileTypes list \<Rightarrow> Project \<Rightarrow> Project" where
  "get_file_list acceptable p = p\<lparr>codefiles := resolve_files p acceptable\<rparr>"

record Solution =
  sol_name :: string
  ide :: IDETypes
  ide_code :: string
  platform_code :: string
  project_list :: "Project list"
  working_directory :: string
  perforce :: bool
  verbose :: bool
  watcom_filename :: "string option"
  codewarrior_filename :: "string option"

text \<open>
  Functions of the Python library and of the package \<^verbatim>\<open>burger\<close> that depend on the
  host: \<^verbatim>\<open>os.path.join\<close> and \<^verbatim>\<open>encapsulate_path_linux\<close>.
\<close>

record host_paths =
  path_join :: "string \<Rightarrow> string \<Rightarrow> string"
  encapsulate_path_linux :: "string \<Rightarrow> string"

text \<open>
  \<^verbatim>\<open>platform.get_short_code()\<close> as a string. The table \<^verbatim>\<open>_PLATFORMTYPES_CODES\<close> has
  an entry for every member, so the \<^verbatim>\<open>None\<close> of \<^verbatim>\<open>dict.get\<close> does not occur.
\<close>

definition short_code_str :: "PlatformTypes \<Rightarrow> string" where
  "short_code_str p = (case get_short_code p of None \<Rightarrow> [] | Some code \<Rightarrow> code)"

text \<open>\<^verbatim>\<open>s[-3:]\<close>, \<^verbatim>\<open>s[:-2]\<close> and \<^verbatim>\<open>sep.join(xs)\<close>.\<close>

definition last3 :: "string \<Rightarrow> string" where
  "last3 s = drop (length s - 3) s"

definition drop_last2 :: "string \<Rightarrow> string" where
  "drop_last2 s = take (length s - 2) s"

fun join_with :: "string \<Rightarrow> string list \<Rightarrow> string" where
  "join_with sep [] = []"
| "join_with sep [x] = x"
| "join_with sep (x # y # ys) = x @ sep @ join_with sep (y # ys)"

section \<open>The Watcom emitter (watcom.py)\<close>

definition watcom_SUPPORTED_IDES :: "IDETypes list" where
  "watcom_SUPPORTED_IDES = [watcom]"


text \<open>The exporter object, \<^verbatim>\<open>watcom.Project\<close>.\<close>

record watcom_Project =
  exp_solution :: Solution
  exp_platforms :: "PlatformTypes list"
  exp_configuration_list :: "Configuration list"
  exp_configuration_names :: "Configuration list"

text \<open>
  The inner loop of \<^verbatim>\<open>Project.__init__\<close> for one configuration: it is appended to
  \<^verbatim>\<open>configuration_names\<close> unless a configuration of the same name is there, and its
  platform to \<^verbatim>\<open>platforms\<close> unless it is there.
\<close>

definition add_configuration :: "Configuration \<Rightarrow> watcom_Project \<Rightarrow> watcom_Project" where
  "add_configuration configuration self =
     self\<lparr>exp_configuration_names :=
            (if list_ex (\<lambda>item. cfg_name configuration = cfg_name item)
                  (exp_configuration_names self)
             then exp_configuration_names self
             else exp_configuration_names self @ [configuration]),
          exp_platforms :=
            (if cfg_platform configuration \<in> set (exp_platforms self)
             then exp_platforms self
             else exp_platforms self @ [cfg_platform configuration])\<rparr>"

definition add_project :: "Project \<Rightarrow> watcom_Project \<Rightarrow> watcom_Project" where
  "add_project p self =
     fold add_configuration (configuration_list p)
       (self\<lparr>exp_configuration_list := exp_configuration_list self @ configuration_list p\<rparr>)"

text \<open>
  \<^verbatim>\<open>Project.__init__\<close>: every project of the solution gets its file list for headers,
  C++, C and x86 assembly, then the configurations are collected.
\<close>

definition watcom_Project_init :: "Solution \<Rightarrow> watcom_Project" where
  "watcom_Project_init sol =
     (let scanned = sol\<lparr>project_list :=
            map (get_file_list [ft_h, ft_cpp, ft_c, ft_x86]) (project_list sol)\<rparr>
      in fold add_project (project_list scanned)
           \<lparr>exp_solution = scanned, exp_platforms = [], exp_configuration_list = [],
            exp_configuration_names = []\<rparr>)"

text \<open>The name under which the make file refers to itself.\<close>

definition filename_of :: "string option \<Rightarrow> string" where
  "filename_of f = (case f of None \<Rightarrow> ''None'' | Some n \<Rightarrow> n)"

text \<open>
  \<^verbatim>\<open>write_header\<close>. The default configuration is \<^verbatim>\<open>Release\<close> if present, otherwise
  the first; the default target is \<^verbatim>\<open>msdos4gw\<close> if present, otherwise the first.
\<close>

fun default_config :: "string option \<Rightarrow> Configuration list \<Rightarrow> string option" where
  "default_config config [] = config"
| "default_config config (item # items) =
     default_config
       (if cfg_name item = ''Release'' then Some ''Release''
        else if config = None then Some (cfg_name item) else config) items"

fun default_target :: "string option \<Rightarrow> PlatformTypes list \<Rightarrow> string option" where
  "default_target target [] = target"
| "default_target target (p # ps) =
     default_target
       (if p = msdos4gw then Some (short_code_str p)
        else if target = None then Some (short_code_str p) else target) ps"

definition or_release :: "string option \<Rightarrow> string" where
  "or_release v = (case v of None \<Rightarrow> ''Release'' | Some s \<Rightarrow> s)"

definition write_header :: "watcom_Project \<Rightarrow> string list" where
  \<open>write_header self =
     (let config = or_release (default_config None (exp_configuration_list self));
          target = or_release (default_target None (exp_platforms self))
      in
     [''#'',
      ''# Build '' @ sol_name (exp_solution self) @ '' with WMAKE'',
      ''# Generated with makeprojects'',
      ''#'',
      ''# Require the environment variable WATCOM set to the OpenWatcom folder'',
      ''# Example: WATCOM=C:'' @ [bslash] @ ''WATCOM'',
      ''#'',
      '''',
      ''# This speeds up the building process for Watcom because it'',
      ''# keeps the apps in memory and doesn'' @ [quote] @ ''t have to reload for every source '' @
        ''file'',
      ''# Note: There is a bug that if the wlib app is loaded, it will not'',
      ''# get the proper WOW file if a full build is performed'',
      '''',
      ''# The bug is gone from Watcom 1.2'',
      '''',
      ''!ifdef %WATCOM'',
      ''!ifdef __LOADDLL__'',
      ''!loaddll wcc $(%WATCOM)/binnt/wccd'',
      ''!loaddll wccaxp $(%WATCOM)/binnt/wccdaxp'',
      ''!loaddll wcc386 $(%WATCOM)/binnt/wccd386'',
      ''!loaddll wpp $(%WATCOM)/binnt/wppdi86'',
      ''!loaddll wppaxp $(%WATCOM)/binnt/wppdaxp'',
      ''!loaddll wpp386 $(%WATCOM)/binnt/wppd386'',
      ''!loaddll wlink $(%WATCOM)/binnt/wlinkd'',
      ''!loaddll wlib $(%WATCOM)/binnt/wlibd'',
      ''!endif'',
      ''!endif'']
     @
     ['''',
      ''#'',
      ''# Default configuration'',
      ''#'',
      '''',
      ''!ifndef CONFIG'',
      ''CONFIG = '' @ config,
      ''!endif'']
     @
     ['''',
      ''#'',
      ''# Default target'',
      ''#'',
      '''',
      ''!ifndef TARGET'',
      ''TARGET = '' @ target,
      ''!endif'']
     @
     ['''',
      ''#'',
      ''# Directory name fragments'',
      ''#'',
      '''']
     @ map (\<lambda>p. ''TARGET_SUFFIX_'' @ short_code_str p @ '' = '' @ last3 (short_code_str p))
         (exp_platforms self)
     @ ['''']
     @ map (\<lambda>item. ''CONFIG_SUFFIX_'' @ cfg_name item @ '' = '' @ short_code item)
         (exp_configuration_names self)
     @
     ['''',
      ''#'',
      ''# Set the set of known files supported'',
      ''# Note: They are in the reverse order of building. .c is built first, '' @
        ''then .x86'',
      ''# until the .exe or .lib files are built'',
      ''#'',
      '''',
      ''.extensions:'',
      ''.extensions: .exe .exp .lib .obj .h .cpp .x86 .c .i86''])\<close>

text \<open>
  \<^verbatim>\<open>write_source_dir\<close>. The two folder lists are gathered over all configurations
  without repetition; the source folders are written in sorted order.
\<close>

fun gather_unique :: "string list \<Rightarrow> string list \<Rightarrow> string list" where
  "gather_unique folders [] = folders"
| "gather_unique folders (item # items) =
     gather_unique (if item \<in> set folders then folders else folders @ [item]) items"

definition source_folders_of :: "Configuration list \<Rightarrow> string list" where
  "source_folders_of cs =
     fold (\<lambda>c folders. gather_unique folders (get_unique_chained_list c ''_source_include_list''))
       cs []"

definition include_folders_of :: "Configuration list \<Rightarrow> string list" where
  "include_folders_of cs =
     fold (\<lambda>c folders. gather_unique folders (get_unique_chained_list c ''include_folders_list''))
       cs []"

fun source_dir_lines :: "host_paths \<Rightarrow> string \<Rightarrow> string list \<Rightarrow> string list" where
  "source_dir_lines host colon [] = []"
| "source_dir_lines host colon (item # items) =
     (''SOURCE_DIRS '' @ colon @ encapsulate_path_linux host item)
       # source_dir_lines host ''+=;'' items"

definition write_source_dir :: "host_paths \<Rightarrow> watcom_Project \<Rightarrow> string list" where
  \<open>write_source_dir host self =
     (let source_folders = source_folders_of (exp_configuration_list self);
          include_folders = include_folders_of (exp_configuration_list self)
      in
     ['''',
      ''#'',
      ''# Ensure sdks are pulled from the environment'',
      ''#'',
      '''',
      ''BURGER_SDKS = $(%BURGER_SDKS)'']
     @
     ['''',
      ''#'',
      ''# SOURCE_DIRS = Work directories for the source code'',
      ''#'',
      '''']
     @ (if source_folders \<noteq> [] then source_dir_lines host ''='' (sort source_folders)
        else [''SOURCE_DIRS =''])
     @
     ['''',
      ''#'',
      ''# Name of the output library'',
      ''#'',
      '''',
      ''PROJECT_NAME = '' @ sol_name (exp_solution self)]
     @
     ['''',
      ''#'',
      ''# Base name of the temp directory'',
      ''#'',
      '''',
      ''BASE_TEMP_DIR = temp/$(PROJECT_NAME)'',
      ''BASE_SUFFIX = wat$(TARGET_SUFFIX_$(%TARGET))$(CONFIG_SUFFIX_$(%CONFIG))'',
      ''TEMP_DIR = $(BASE_TEMP_DIR)$(BASE_SUFFIX)'']
     @
     ['''',
      ''#'',
      ''# Binary directory'',
      ''#'',
      '''',
      ''DESTINATION_DIR = bin'']
     @
     ['''',
      ''#'',
      ''# INCLUDE_DIRS = Header includes'',
      ''#'',
      '''',
      ''INCLUDE_DIRS = $(SOURCE_DIRS)'']
     @ map (\<lambda>item. ''INCLUDE_DIRS +=;'' @ convert_to_linux_slashes item) include_folders)\<close>

text \<open>\<^verbatim>\<open>write_rules\<close>: fixed text.\<close>

definition write_rules :: "string list" where
  \<open>write_rules =
     ['''',
      ''#'',
      ''# Tell WMAKE where to find the files to work with'',
      ''#'',
      '''',
      ''.c: $(SOURCE_DIRS)'',
      ''.cpp: $(SOURCE_DIRS)'',
      ''.x86: $(SOURCE_DIRS)'',
      ''.i86: $(SOURCE_DIRS)'']
     @
     ['''',
      ''#'',
      ''# Set the compiler flags for each of the build types'',
      ''#'',
      '''',
      ''CFlagsDebug=-d_DEBUG -d2 -od'',
      ''CFlagsInternal=-d_DEBUG -d2 -oaxsh'',
      ''CFlagsRelease=-dNDEBUG -d0 -oaxsh'',
      '''',
      ''#'',
      ''# Set the flags for each target operating system'',
      ''#'',
      '''',
      ''CFlagscom=-bt=com -d__COM__=1 '' @
        ''-i="$(%BURGER_SDKS)/dos/burgerlib;$(%BURGER_SDKS)/dos/x32;$(%WATCOM)/h"'',
      ''CFlagsdosx32=-bt=DOS -d__X32__=1 '' @
        ''-i="$(%BURGER_SDKS)/dos/burgerlib;$(%BURGER_SDKS)/dos/x32;$(%WATCOM)/h"'',
      ''CFlagsdos4gw=-bt=DOS -d__DOS4G__=1 '' @
        ''-i="$(%BURGER_SDKS)/dos/burgerlib;$(%BURGER_SDKS)/dos/sosaudio;$(%WATCOM'' @
        '')/h;$(%WATCOM)/h/nt"'',
      ''CFlagsw32=-bt=NT -dGLUT_DISABLE_ATEXIT_HACK -dGLUT_NO_LIB_PRAGMA '' @
        ''-dTARGET_CPU_X86=1 -dTARGET_OS_WIN32=1 -dTYPE_BOOL=1 -dUNICODE '' @
        ''-d_UNICODE -dWIN32_LEAN_AND_MEAN '' @
        ''-i="$(%BURGER_SDKS)/windows/burgerlib;$(%BURGER_SDKS)/windows/opengl;$(%'' @
        ''BURGER_SDKS)/windows/directx9;$(%BURGER_SDKS)/windows/windows5;$(%BURGER'' @
        ''_SDKS)/windows/quicktime7;$(%WATCOM)/h;$(%WATCOM)/h/nt"'',
      '''',
      ''#'',
      ''# Set the WASM flags for each of the build types'',
      ''#'',
      '''',
      ''AFlagsDebug=-d_DEBUG'',
      ''AFlagsInternal=-d_DEBUG'',
      ''AFlagsRelease=-dNDEBUG'',
      '''',
      ''#'',
      ''# Set the WASM flags for each operating system'',
      ''#'',
      '''',
      ''AFlagscom=-d__COM__=1'',
      ''AFlagsdosx32=-d__X32__=1'',
      ''AFlagsdos4gw=-d__DOS4G__=1'',
      ''AFlagsw32=-d__WIN32__=1'',
      '''',
      ''LFlagsDebug='',
      ''LFlagsInternal='',
      ''LFlagsRelease='',
      '''',
      ''LFlagscom=format dos com libp $(%BURGER_SDKS)/dos/burgerlib'',
      ''LFlagsx32=system x32r libp '' @
        ''$(%BURGER_SDKS)/dos/burgerlib;$(%BURGER_SDKS)/dos/x32'',
      ''LFlagsdos4gw=system dos4g libp '' @
        ''$(%BURGER_SDKS)/dos/burgerlib;$(%BURGER_SDKS)/dos/sosaudio'',
      ''LFlagsw32=system nt libp '' @
        ''$(%BURGER_SDKS)/windows/burgerlib;$(%BURGER_SDKS)/windows/directx9 '' @
        ''LIBRARY VERSION.lib,opengl32.lib,winmm.lib,shell32.lib,shfolder.lib'',
      '''',
      ''# Now, set the compiler flags'',
      '''',
      ''CL=WCC386 -6r -fp6 -w4 -ei -j -mf -zq -zp=8 -wcd=7 -i=$(INCLUDE_DIRS)'',
      ''CP=WPP386 -6r -fp6 -w4 -ei -j -mf -zq -zp=8 -wcd=7 -i=$(INCLUDE_DIRS)'',
      ''ASM=WASM -5r -fp6 -w4 -zq -d__WATCOM__=1'',
      ''LINK=*WLINK option caseexact option quiet PATH '' @
        ''$(%WATCOM)/binnt;$(%WATCOM)/binw;.'',
      '''',
      ''# Set the default build rules'',
      ''# Requires ASM, CP to be set'',
      '''',
      ''# Macro expansion is on page 93 of the C//C++ Tools User'' @ [quote] @ ''s Guide'',
      ''# $^* = C:'' @ [bslash] @ ''dir'' @ [bslash] @ ''target (No extension)'',
      ''# $[* = C:'' @ [bslash] @ ''dir'' @ [bslash] @ ''dep (No extension)'',
      ''# $^@ = C:'' @ [bslash] @ ''dir'' @ [bslash] @ ''target.ext'',
      ''# $^: = C:'' @ [bslash] @ ''dir'' @ [bslash],
      '''',
      ''.i86.obj : .AUTODEPEND'',
      [tab] @ ''@echo $[&.i86 / $(%CONFIG) / $(%TARGET)'',
      [tab] @ ''@$(ASM) -0 -w4 -zq -d__WATCOM__=1 $(AFlags$(%CONFIG)) '' @
        ''$(AFlags$(%TARGET)) $[*.i86 -fo=$^@ -fr=$^*.err'',
      '''',
      ''.x86.obj : .AUTODEPEND'',
      [tab] @ ''@echo $[&.x86 / $(%CONFIG) / $(%TARGET)'',
      [tab] @ ''@$(ASM) $(AFlags$(%CONFIG)) $(AFlags$(%TARGET)) $[*.x86 -fo=$^@ '' @
        ''-fr=$^*.err'',
      '''',
      ''.c.obj : .AUTODEPEND'',
      [tab] @ ''@echo $[&.c / $(%CONFIG) / $(%TARGET)'',
      [tab] @ ''@$(CP) $(CFlags$(%CONFIG)) $(CFlags$(%TARGET)) $[*.c -fo=$^@ '' @
        ''-fr=$^*.err'',
      '''',
      ''.cpp.obj : .AUTODEPEND'',
      [tab] @ ''@echo $[&.cpp / $(%CONFIG) / $(%TARGET)'',
      [tab] @ ''@$(CP) $(CFlags$(%CONFIG)) $(CFlags$(%TARGET)) $[*.cpp -fo=$^@ '' @
        ''-fr=$^*.err'']\<close>

text \<open>
  \<^verbatim>\<open>write_files\<close>. An object is listed for every file of type C, C++ or x86 of the
  first project: the path without its extension and without its directories.
\<close>

definition object_entry :: "CodeFile \<Rightarrow> string" where
  "object_entry item =
     (let tempfile = convert_to_linux_slashes (relative_pathname item);
          entry = (case rfind tempfile (CHR ''.'') of
                     None \<Rightarrow> tempfile | Some index \<Rightarrow> take index tempfile)
      in case rfind entry (CHR ''/'') of
           None \<Rightarrow> entry | Some index \<Rightarrow> drop (index + 1) entry)"

definition obj_list_of :: "CodeFile list \<Rightarrow> string list" where
  "obj_list_of files =
     map object_entry
       (filter (\<lambda>item. ftype item = ft_c \<or> ftype item = ft_cpp \<or> ftype item = ft_x86) files)"

fun obj_lines :: "string \<Rightarrow> string list \<Rightarrow> string list" where
  "obj_lines colon [] = []"
| "obj_lines colon (item # items) =
     (colon @ ''$(A)/'' @ item @ ''.obj &'') # obj_lines [tab] items"

definition write_files :: "watcom_Project \<Rightarrow> string list" where
  \<open>write_files self =
     (let files = (case project_list (exp_solution self) of
                     [] \<Rightarrow> [] | p # ps \<Rightarrow> codefiles p);
          obj_list = obj_list_of files
      in
     ['''',
      ''#'',
      ''# Object files to work with for the library'',
      ''#'',
      '''']
     @ (if obj_list \<noteq> []
        then (let ls = obj_lines ''OBJS= '' (sort obj_list)
              in butlast ls @ [drop_last2 (last ls)])
        else [''OBJS='']))\<close>

text \<open>\<^verbatim>\<open>write_all_target\<close>: the rule "all" and one rule per configuration and platform.\<close>

definition configuration_rule :: "PlatformTypes list \<Rightarrow> Configuration \<Rightarrow> string list" where
  "configuration_rule ps configuration =
     ['''',
      join_with '' ''
        ([cfg_name configuration @ '':'']
         @ map (\<lambda>p. cfg_name configuration @ short_code_str p) ps
         @ [''.SYMBOLIC'']),
      [tab] @ ''@%null'']"

definition platform_rule :: "Configuration list \<Rightarrow> PlatformTypes \<Rightarrow> string list" where
  "platform_rule cs p =
     ['''',
      join_with '' ''
        ([short_code_str p @ '':'']
         @ map (\<lambda>configuration. cfg_name configuration @ short_code_str p) cs
         @ [''.SYMBOLIC'']),
      [tab] @ ''@%null'']"

definition binary_rule :: "Configuration \<Rightarrow> string list" where
  \<open>binary_rule configuration =
     (let suffix = (if cfg_project_type configuration = library then ''lib'' else ''exe'');
          p = cfg_platform configuration;
          name = ''wat'' @ last3 (short_code_str p) @ short_code configuration
      in
      ['''',
       cfg_name configuration @ short_code_str p @ '': .SYMBOLIC'',
       [tab] @ ''@if not exist "$(DESTINATION_DIR)" @mkdir "$(DESTINATION_DIR)"'',
       [tab] @ ''@if not exist "$(BASE_TEMP_DIR)'' @ name @ ''" @mkdir "$(BASE_TEMP_DIR)'' @
         name @ ''"'',
       [tab] @ ''@set CONFIG='' @ cfg_name configuration,
       [tab] @ ''@set TARGET='' @ short_code_str p,
       [tab] @ ''@%make $(DESTINATION_DIR)'' @ [bslash] @ ''$(PROJECT_NAME)wat'' @
         last3 (short_code_str p) @ short_code configuration @ ''.'' @ suffix])\<close>

definition write_all_target :: "watcom_Project \<Rightarrow> string list" where
  \<open>write_all_target self =
     ['''',
      ''#'',
      ''# List the names of all of the final binaries to build'',
      ''#'',
      '''']
     @ [join_with '' ''
          ([''all:''] @ map cfg_name (exp_configuration_names self) @ [''.SYMBOLIC'']),
        [tab] @ ''@%null'']
     @
     ['''',
      ''#'',
      ''# Configurations'',
      ''#'']
     @ concat (map (configuration_rule (exp_platforms self)) (exp_configuration_names self))
     @ concat (map (platform_rule (exp_configuration_list self)) (exp_platforms self))
     @ concat (map binary_rule (exp_configuration_list self))
     @
     ['''',
      ''#'',
      ''# Disable building this make file'',
      ''#'',
      '''',
      filename_of (watcom_filename (exp_solution self)) @ '':'',
      [tab] @ ''@%null'']\<close>

text \<open>\<^verbatim>\<open>write_builds\<close>: the rule that builds each binary from the objects.\<close>

definition build_rule :: "string \<Rightarrow> Configuration \<Rightarrow> string list" where
  \<open>build_rule makefile configuration =
     (let suffix = (if cfg_project_type configuration = library then ''.lib'' else ''.exe'')
      in
      ['''',
       ''A = $(BASE_TEMP_DIR)wat'' @ last3 (short_code_str (cfg_platform configuration)) @
         short_code configuration,
       ''$(DESTINATION_DIR)'' @ [bslash] @ ''$(PROJECT_NAME)wat'' @
         last3 (short_code_str (cfg_platform configuration)) @
         short_code configuration @ suffix @ '': $+$(OBJS)$- '' @ makefile]
      @ (if cfg_project_type configuration = library then
           [[tab] @ ''@SET WOW=$+$(OBJS)$-'',
            [tab] @ ''@WLIB -q -b -c -n $^@ @WOW'']
           @ (case deploy_folder configuration of
                None \<Rightarrow> []
              | Some folder \<Rightarrow>
                  (if folder = [] then []
                   else
                     (let converted = convert_to_windows_slashes folder;
                          slashed = (if endswith converted [bslash] then converted
                                     else converted @ [bslash]);
                          deploy = butlast slashed
                      in [[tab] @ ''@p4 edit "'' @ deploy @ [bslash] @ ''$^."'',
                          [tab] @ ''@copy /y "$^@" "'' @ deploy @ [bslash] @ ''$^."'',
                          [tab] @ ''@p4 revert -a "'' @ deploy @ [bslash] @ ''$^."''])))
         else
           [[tab] @ ''@SET WOW={$+$(OBJS)$-}'',
            [tab] @ ''@$(LINK) $(LFlags$(%TARGET)) $(LFlags$(%CONFIG)) LIBRARY '' @
              ''burger$(BASE_SUFFIX).lib NAME $^@ FILE @wow'']))\<close>

definition write_builds :: "watcom_Project \<Rightarrow> string list" where
  \<open>write_builds self =
     ['''',
      ''#'',
      ''# A = The object file temp folder'',
      ''#'']
     @ concat (map (build_rule (filename_of (watcom_filename (exp_solution self))))
                 (exp_configuration_list self))\<close>

text \<open>\<^verbatim>\<open>Project.generate\<close>: the six parts in order; it always returns 0.\<close>

definition watcom_Project_generate :: "host_paths \<Rightarrow> watcom_Project \<Rightarrow> int \<times> string list" where
  "watcom_Project_generate host self =
     (0, write_header self @ write_source_dir host self @ write_rules @ write_files self
         @ write_all_target self @ write_builds self)"

text \<open>
  The disk, as far as the emitters touch it: text files by path. \<^verbatim>\<open>burger\<close>'s
  \<^verbatim>\<open>save_text_file_if_newer\<close> writes the lines unless the file already holds them;
  \<open>writes\<close> records the paths written, in order. \<open>perforce_edits\<close> and
  \<open>commands\<close> record the files opened for edit and the command lines run.
  Failures of the file system are outside the model: a save succeeds.
\<close>

record disk =
  files :: "string \<rightharpoonup> string list"
  writes :: "string list"
  perforce_edits :: "string list"
  commands :: "string list"

definition save_text_file_if_newer :: "string \<Rightarrow> string list \<Rightarrow> disk \<Rightarrow> disk" where
  "save_text_file_if_newer path text_lines d =
     (if files d path = Some text_lines then d
      else d\<lparr>files := (files d)(path \<mapsto> text_lines), writes := writes d @ [path]\<rparr>)"

text \<open>
  \<^verbatim>\<open>watcom.generate(solution)\<close>: the return code, the solution with its
  \<^verbatim>\<open>watcom_filename\<close>, and the disk afterwards. Only the IDE is tested; the platform
  is not looked at.
\<close>

definition watcom_generate ::
  "host_paths \<Rightarrow> Solution \<Rightarrow> disk \<Rightarrow> int \<times> Solution \<times> disk" where
  "watcom_generate host sol d =
     (if ide sol \<notin> set watcom_SUPPORTED_IDES then (10, sol, d)
      else
        (let named = sol\<lparr>watcom_filename :=
               Some (sol_name sol @ ide_code sol @ platform_code sol @ ''.wmk'')\<rparr>;
             exporter = watcom_Project_init named;
             (error, watcom_lines) = watcom_Project_generate host exporter
         in if error \<noteq> 0 then (error, exp_solution exporter, d)
            else (0, exp_solution exporter,
                  save_text_file_if_newer
                    (path_join host (working_directory named)
                       (filename_of (watcom_filename named)))
                    watcom_lines d)))"

section \<open>The CodeWarrior emitter (codewarrior.py)\<close>





section \<open>File type lookup (enums.py)\<close>

text \<open>The dictionary \<^verbatim>\<open>_FILETYPES_LOOKUP\<close>.\<close>

definition FILETYPES_LOOKUP :: "(string \<times> FileTypes) list" where
  "FILETYPES_LOOKUP =
     [(''c'', ft_c), (''cc'', ft_cpp), (''cpp'', ft_cpp), (''c++'', ft_cpp),
      (''hpp'', ft_h), (''h'', ft_h), (''hh'', ft_h), (''i'', ft_h), (''inc'', ft_h),
      (''m'', ft_m), (''plist'', ft_xml), (''rc'', ft_rc), (''r'', ft_r), (''rsrc'', ft_r),
      (''hlsl'', ft_hlsl), (''vsh'', ft_glsl), (''fsh'', ft_glsl), (''glsl'', ft_glsl),
      (''x360sl'', ft_x360sl), (''vitacg'', ft_vitacg), (''xml'', ft_xml),
      (''x86'', ft_x86), (''x64'', ft_x64), (''a65'', ft_a65), (''ppc'', ft_ppc),
      (''a68'', ft_a68), (''ico'', ft_ico), (''icns'', ft_icns), (''png'', ft_image),
      (''jpg'', ft_image), (''bmp'', ft_image), (''txt'', ft_generic),
      (''rtf'', ft_generic), (''rst'', ft_generic), (''md'', ft_generic),
      (''pdf'', ft_generic), (''sh'', ft_generic), (''cmd'', ft_generic),
      (''bat'', ft_generic)]"

text \<open>
  The extension part of \<^verbatim>\<open>os.path.splitext\<close> on a path with slashes: the text from
  the last dot on, if the dot stands after the last separator and some character of
  the base name before it is not a dot; otherwise empty.
\<close>

definition splitext_ext :: "string \<Rightarrow> string" where
  "splitext_ext p =
     (case rfind p (CHR ''.'') of
        None \<Rightarrow> []
      | Some dotIndex \<Rightarrow>
          (let start = (case rfind p (CHR ''/'') of None \<Rightarrow> 0 | Some sepIndex \<Rightarrow> sepIndex + 1)
           in if start \<le> dotIndex \<and>
                 list_ex (\<lambda>ch. ch \<noteq> CHR ''.'') (take (dotIndex - start) (drop start p))
              then drop dotIndex p else []))"

text \<open>\<^verbatim>\<open>str.strip()\<close> for the ASCII white space.\<close>

definition is_space :: "char \<Rightarrow> bool" where
  "is_space ch \<longleftrightarrow> ch \<in> set [CHR '' '', CHR 0x09, CHR 0x0A, CHR 0x0B, CHR 0x0C, CHR 0x0D]"

definition strip :: "string \<Rightarrow> string" where
  "strip s = rev (dropWhile is_space (rev (dropWhile is_space s)))"

text \<open>\<^verbatim>\<open>FileTypes.lookup(test_name)\<close>.\<close>

definition FileTypes_lookup :: "string \<Rightarrow> FileTypes option" where
  "FileTypes_lookup test_name =
     map_of FILETYPES_LOOKUP (lower (strip (drop 1 (splitext_ext test_name))))"

section \<open>The round trip scenario\<close>

text \<open>
  Modelled from the spec: the resolution of one source folder that holds the files
  \<open>names\<close>, the scan itself being missing from the source files. Each file is
  classified by \<^verbatim>\<open>FileTypes.lookup\<close>, kept if its type is acceptable, and the list
  is sorted without regard to case.
\<close>

definition resolve_folder :: "string list \<Rightarrow> FileTypes list \<Rightarrow> CodeFile list" where
  "resolve_folder names acceptable =
     sort_key (\<lambda>f. lower (relative_pathname f))
       (List.map_filter
          (\<lambda>n. case FileTypes_lookup n of
                 None \<Rightarrow> None
               | Some t \<Rightarrow>
                   if t \<in> set acceptable then Some \<lparr>relative_pathname = n, ftype = t\<rparr>
                   else None)
          names)"

text \<open>
  A configuration as the scenario creates it: the short code is the one
  \<^verbatim>\<open>configuration_short_code\<close> gives for the name.
\<close>

definition scenario_configuration ::
  "string \<Rightarrow> PlatformTypes \<Rightarrow> ProjectTypes \<Rightarrow> Configuration" where
  "scenario_configuration n p pt =
     \<lparr>cfg_name = n, cfg_platform = p, cfg_project_type = pt,
      short_code = (case configuration_short_code n of None \<Rightarrow> [] | Some code \<Rightarrow> code),
      deploy_folder = None, cfg_attrs = (\<lambda>a. PNone), cfg_project = Some (\<lambda>a. PNone)\<rparr>"

text \<open>
  The solution \<^verbatim>\<open>foo\<close> for the Watcom format: one project with the configurations
  Debug and Release on the platform \<open>p\<close>, and one source folder holding
  \<^verbatim>\<open>main.cpp\<close> and \<^verbatim>\<open>main.h\<close>. \<open>pcode\<close> is the platform code of the solution.
\<close>

definition foo_project :: "PlatformTypes \<Rightarrow> ProjectTypes \<Rightarrow> Project" where
  "foo_project p pt =
     \<lparr>configuration_list =
        [scenario_configuration ''Debug'' p pt, scenario_configuration ''Release'' p pt],
      codefiles = [],
      resolve_files = resolve_folder [''main.cpp'', ''main.h'']\<rparr>"

definition foo_solution :: "IDETypes \<Rightarrow> string \<Rightarrow> PlatformTypes \<Rightarrow> ProjectTypes \<Rightarrow> Solution" where
  "foo_solution i pcode p pt =
     \<lparr>sol_name = ''foo'', ide = i,
      ide_code = (case code_of IDETYPES_CODES i of None \<Rightarrow> [] | Some code \<Rightarrow> code),
      platform_code = pcode, project_list = [foo_project p pt],
      working_directory = ''work'', perforce = False, verbose = False,
      watcom_filename = None, codewarrior_filename = None\<rparr>"

definition empty_disk :: disk where
  "empty_disk = \<lparr>files = Map.empty, writes = [], perforce_edits = [], commands = []\<rparr>"

definition posix_host :: host_paths where
  "posix_host = \<lparr>path_join = (\<lambda>a b. a @ ''/'' @ b), encapsulate_path_linux = (\<lambda>s. s)\<rparr>"

definition foo_exporter :: "PlatformTypes \<Rightarrow> ProjectTypes \<Rightarrow> watcom_Project" where
  "foo_exporter p pt =
     watcom_Project_init
       ((foo_solution watcom ''win'' p pt)\<lparr>watcom_filename := Some ''foowatwin.wmk''\<rparr>)"



section \<open>Scanning for source files (core.py)\<close>

text \<open>The list \<^verbatim>\<open>defaultcodeextensions\<close> of \<^verbatim>\<open>core.py\<close>.\<close>

definition defaultcodeextensions :: "(string \<times> core_FileTypes) list" where
  "defaultcodeextensions =
     [(''.c'', core_cpp), (''.cc'', core_cpp), (''.cpp'', core_cpp), (''.c++'', core_cpp),
      (''.hpp'', core_h), (''.h'', core_h), (''.hh'', core_h), (''.i'', core_h),
      (''.inc'', core_h), (''.m'', core_m), (''.plist'', core_xml), (''.rc'', core_rc),
      (''.r'', core_r), (''.rsrc'', core_r), (''.hlsl'', core_hlsl), (''.vsh'', core_glsl),
      (''.fsh'', core_glsl), (''.glsl'', core_glsl), (''.x360sl'', core_x360sl),
      (''.vitacg'', core_vitacg), (''.xml'', core_xml), (''.a65'', core_a65),
      (''.x86'', core_x86), (''.ico'', core_ico), (''.icns'', core_icns),
      (''.png'', core_image), (''.jpg'', core_image), (''.bmp'', core_image)]"

text \<open>
  The file system as the scan sees it. A directory lists its entries in the order
  \<^verbatim>\<open>os.listdir\<close> reports them; an entry is a regular file, a directory, or
  something that is neither (\<^verbatim>\<open>os.path.isfile\<close> and \<^verbatim>\<open>os.path.isdir\<close> both false).
\<close>

datatype fsnode = RegularFile | Directory "(string \<times> fsnode) list" | Other

text \<open>
  The host: \<^verbatim>\<open>os.sep\<close>, \<^verbatim>\<open>os.path.join\<close>, and what a path names on the disk
  (\<open>None\<close> if nothing).
\<close>

record core_host =
  os_sep :: string
  os_path_join :: "string \<Rightarrow> string \<Rightarrow> string"
  lookup_path :: "string \<Rightarrow> fsnode option"

text \<open>The attributes of \<^verbatim>\<open>SolutionData\<close> that the scan reads.\<close>

record SolutionData =
  workingDir :: string
  exclude :: "string list"
  sourcefolders :: "string list"
  sd_codefiles :: "core_SourceFile list"

type_synonym scan_state = "core_SourceFile list \<times> string list"

text \<open>\<^verbatim>\<open>searchDir\<close>: the root directory itself for \<^verbatim>\<open>'.'\<close>, otherwise joined to it.\<close>

definition search_dir :: "core_host \<Rightarrow> SolutionData \<Rightarrow> string \<Rightarrow> string" where
  "search_dir h sd dir =
     (if dir = ''.'' then workingDir sd else os_path_join h (workingDir sd) dir)"

text \<open>The exclusion test and the first extension of the table that the name ends with.\<close>

definition excluded :: "SolutionData \<Rightarrow> string \<Rightarrow> bool" where
  "excluded sd testName \<longleftrightarrow> list_ex (\<lambda>item. testName = lower item) (exclude sd)"

definition classify :: "string \<Rightarrow> (string \<times> core_FileTypes) option" where
  "classify testName = find (\<lambda>item. endswith testName (fst item)) defaultcodeextensions"

text \<open>
  \<^verbatim>\<open>SolutionData.scandirectory\<close> on the node that \<^verbatim>\<open>searchDir\<close> names, and its loop
  over the listing (\<open>scan_names\<close>, with the flag \<^verbatim>\<open>found\<close>). A file is added when
  the first extension it ends with has an acceptable type; its directory is added to
  \<^verbatim>\<open>includedirectories\<close> with the first file found in this call. A subdirectory is
  scanned in place when \<^verbatim>\<open>recurse\<close> is set.
\<close>

fun scandirectory ::
    "core_host \<Rightarrow> SolutionData \<Rightarrow> bool \<Rightarrow> core_FileTypes list \<Rightarrow> string \<Rightarrow> fsnode \<Rightarrow>
       scan_state \<Rightarrow> scan_state"
  and scan_names ::
    "core_host \<Rightarrow> SolutionData \<Rightarrow> bool \<Rightarrow> core_FileTypes list \<Rightarrow> string \<Rightarrow>
       (string \<times> fsnode) list \<Rightarrow> bool \<Rightarrow> scan_state \<Rightarrow> scan_state" where
  "scandirectory h sd recurse acceptable dir RegularFile st = st"
| "scandirectory h sd recurse acceptable dir Other st = st"
| "scandirectory h sd recurse acceptable dir (Directory nameList) st =
     scan_names h sd recurse acceptable dir nameList False st"
| "scan_names h sd recurse acceptable dir [] found st = st"
| "scan_names h sd recurse acceptable dir ((baseName, node) # rest) found st =
     (let testName = lower baseName in
      if excluded sd testName then scan_names h sd recurse acceptable dir rest found st
      else
        (case node of
           RegularFile \<Rightarrow>
             (case classify testName of
                None \<Rightarrow> scan_names h sd recurse acceptable dir rest found st
              | Some item \<Rightarrow>
                  if snd item \<in> set acceptable then
                    (let newfilename =
                           (if dir = ''.'' then baseName else dir @ os_sep h @ baseName);
                         fileentry =
                           core_SourceFile_init newfilename (search_dir h sd dir) (snd item)
                     in scan_names h sd recurse acceptable dir rest True
                          (fst st @ [fileentry],
                           if found then snd st else snd st @ [dir]))
                  else scan_names h sd recurse acceptable dir rest found st)
         | Directory sub \<Rightarrow>
             if recurse then
               scan_names h sd recurse acceptable dir rest found
                 (scandirectory h sd recurse acceptable (dir @ os_sep h @ baseName) node st)
             else scan_names h sd recurse acceptable dir rest found st
         | Other \<Rightarrow> scan_names h sd recurse acceptable dir rest found st))"

text \<open>
  The call \<^verbatim>\<open>self.scandirectory(item, ...)\<close> of \<^verbatim>\<open>getfilelist\<close>: nothing happens
  unless \<^verbatim>\<open>searchDir\<close> names a directory.
\<close>

definition scandirectory_at ::
  "core_host \<Rightarrow> SolutionData \<Rightarrow> bool \<Rightarrow> core_FileTypes list \<Rightarrow> string \<Rightarrow>
     scan_state \<Rightarrow> scan_state" where
  "scandirectory_at h sd recurse acceptable dir st =
     (case lookup_path h (search_dir h sd dir) of
        None \<Rightarrow> st
      | Some node \<Rightarrow> scandirectory h sd recurse acceptable dir node st)"

text \<open>
  The loop of \<^verbatim>\<open>getfilelist\<close> over \<^verbatim>\<open>self.sourcefolders\<close>: a folder that ends in
  \<^verbatim>\<open>/*.*\<close> is scanned recursively, without that ending.
\<close>

fun scan_folders ::
  "core_host \<Rightarrow> SolutionData \<Rightarrow> core_FileTypes list \<Rightarrow> string list \<Rightarrow> scan_state \<Rightarrow>
     scan_state" where
  "scan_folders h sd acceptable [] st = st"
| "scan_folders h sd acceptable (item # items) st =
     scan_folders h sd acceptable items
       (if endswith item ''/*.*''
        then scandirectory_at h sd True acceptable (take (length item - 4) item) st
        else scandirectory_at h sd False acceptable item st)"

text \<open>
  \<^verbatim>\<open>SolutionData.getfilelist\<close>. \<^verbatim>\<open>sorted(codefiles, cmp=...)\<close> compares the
  file names as strings, character code by character code, and is stable.
\<close>

definition getfilelist ::
  "core_host \<Rightarrow> SolutionData \<Rightarrow> core_FileTypes list \<Rightarrow> core_SourceFile list \<times> string list" where
  "getfilelist h sd acceptable =
     (let st = scan_folders h sd acceptable (sourcefolders sd) (sd_codefiles sd, [])
      in (sort_key core_filename (fst st), snd st))"

text \<open>
  The files a node contributes, without the accumulators: what one call of
  \<open>scandirectory\<close> appends to \<^verbatim>\<open>codefiles\<close>.
\<close>

fun files_of_node ::
    "core_host \<Rightarrow> SolutionData \<Rightarrow> bool \<Rightarrow> core_FileTypes list \<Rightarrow> string \<Rightarrow> fsnode \<Rightarrow>
       core_SourceFile list"
  and files_of_names ::
    "core_host \<Rightarrow> SolutionData \<Rightarrow> bool \<Rightarrow> core_FileTypes list \<Rightarrow> string \<Rightarrow>
       (string \<times> fsnode) list \<Rightarrow> core_SourceFile list" where
  "files_of_node h sd recurse acceptable dir RegularFile = []"
| "files_of_node h sd recurse acceptable dir Other = []"
| "files_of_node h sd recurse acceptable dir (Directory nameList) =
     files_of_names h sd recurse acceptable dir nameList"
| "files_of_names h sd recurse acceptable dir [] = []"
| "files_of_names h sd recurse acceptable dir ((baseName, node) # rest) =
     (if excluded sd (lower baseName) then []
      else
        (case node of
           RegularFile \<Rightarrow>
             (case classify (lower baseName) of
                None \<Rightarrow> []
              | Some item \<Rightarrow>
                  if snd item \<in> set acceptable then
                    [core_SourceFile_init
                       (if dir = ''.'' then baseName else dir @ os_sep h @ baseName)
                       (search_dir h sd dir) (snd item)]
                  else [])
         | Directory sub \<Rightarrow>
             if recurse
             then files_of_node h sd recurse acceptable (dir @ os_sep h @ baseName) node
             else []
         | Other \<Rightarrow> []))
     @ files_of_names h sd recurse acceptable dir rest"

text \<open>
  Two nodes hold the same contents when they are of the same kind and, for
  directories, one listing is a rearrangement of the other, entry by entry.
\<close>

inductive same_contents :: "fsnode \<Rightarrow> fsnode \<Rightarrow> bool" where
  same_file: "same_contents RegularFile RegularFile"
| same_other: "same_contents Other Other"
| same_directory:
    "list_all2 (\<lambda>x y. fst x = fst y \<and> same_contents (snd x) (snd y)) es ps \<Longrightarrow>
     mset ps = mset es' \<Longrightarrow> same_contents (Directory es) (Directory es')"

text \<open>
  The directories a node contributes: what one call of \<open>scandirectory\<close> appends to
  \<^verbatim>\<open>includedirectories\<close>.
\<close>

fun dirs_of_node ::
    "core_host \<Rightarrow> SolutionData \<Rightarrow> bool \<Rightarrow> core_FileTypes list \<Rightarrow> string \<Rightarrow> fsnode \<Rightarrow>
       string list"
  and dirs_of_names ::
    "core_host \<Rightarrow> SolutionData \<Rightarrow> bool \<Rightarrow> core_FileTypes list \<Rightarrow> string \<Rightarrow>
       (string \<times> fsnode) list \<Rightarrow> bool \<Rightarrow> string list" where
  "dirs_of_node h sd recurse acceptable dir RegularFile = []"
| "dirs_of_node h sd recurse acceptable dir Other = []"
| "dirs_of_node h sd recurse acceptable dir (Directory nameList) =
     dirs_of_names h sd recurse acceptable dir nameList False"
| "dirs_of_names h sd recurse acceptable dir [] found = []"
| "dirs_of_names h sd recurse acceptable dir ((baseName, node) # rest) found =
     (if excluded sd (lower baseName)
      then dirs_of_names h sd recurse acceptable dir rest found
      else
        (case node of
           RegularFile \<Rightarrow>
             (case classify (lower baseName) of
                None \<Rightarrow> dirs_of_names h sd recurse acceptable dir rest found
              | Some item \<Rightarrow>
                  if snd item \<in> set acceptable then
                    (if found then [] else [dir])
                    @ dirs_of_names h sd recurse acceptable dir rest True
                  else dirs_of_names h sd recurse acceptable dir rest found)
         | Directory sub \<Rightarrow>
             if recurse
             then dirs_of_node h sd recurse acceptable (dir @ os_sep h @ baseName) node
                  @ dirs_of_names h sd recurse acceptable dir rest found
             else dirs_of_names h sd recurse acceptable dir rest found
         | Other \<Rightarrow> dirs_of_names h sd recurse acceptable dir rest found))"

text \<open>The same for a source folder given by its path, and for a list of source folders.\<close>

definition files_at ::
  "core_host \<Rightarrow> SolutionData \<Rightarrow> bool \<Rightarrow> core_FileTypes list \<Rightarrow> string \<Rightarrow> core_SourceFile list"
  where
  "files_at h sd recurse acceptable dir =
     (case lookup_path h (search_dir h sd dir) of
        None \<Rightarrow> []
      | Some node \<Rightarrow> files_of_node h sd recurse acceptable dir node)"

definition dirs_at ::
  "core_host \<Rightarrow> SolutionData \<Rightarrow> bool \<Rightarrow> core_FileTypes list \<Rightarrow> string \<Rightarrow> string list" where
  "dirs_at h sd recurse acceptable dir =
     (case lookup_path h (search_dir h sd dir) of
        None \<Rightarrow> []
      | Some node \<Rightarrow> dirs_of_node h sd recurse acceptable dir node)"

fun files_of_folders ::
  "core_host \<Rightarrow> SolutionData \<Rightarrow> core_FileTypes list \<Rightarrow> string list \<Rightarrow> core_SourceFile list"
  where
  "files_of_folders h sd acceptable [] = []"
| "files_of_folders h sd acceptable (item # items) =
     (if endswith item ''/*.*''
      then files_at h sd True acceptable (take (length item - 4) item)
      else files_at h sd False acceptable item)
     @ files_of_folders h sd acceptable items"

fun dirs_of_folders ::
  "core_host \<Rightarrow> SolutionData \<Rightarrow> core_FileTypes list \<Rightarrow> string list \<Rightarrow> string list" where
  "dirs_of_folders h sd acceptable [] = []"
| "dirs_of_folders h sd acceptable (item # items) =
     (if endswith item ''/*.*''
      then dirs_at h sd True acceptable (take (length item - 4) item)
      else dirs_at h sd False acceptable item)
     @ dirs_of_folders h sd acceptable items"

text \<open>Example hosts: a POSIX host on which the path \<open>at\<close> names the node \<open>node\<close>.\<close>

definition rooted_host :: "string \<Rightarrow> fsnode \<Rightarrow> core_host" where
  "rooted_host at node =
     \<lparr>os_sep = ''/'', os_path_join = (\<lambda>a b. a @ ''/'' @ b),
      lookup_path = (\<lambda>p. if p = at then Some node else None)\<rparr>"

text \<open>A working directory, listed in two orders.\<close>

definition example_tree :: fsnode where
  "example_tree =
     Directory
       [(''main.cpp'', RegularFile), (''Zebra.h'', RegularFile), (''notes.txt'', RegularFile),
        (''source'', Directory [(''util.cpp'', RegularFile), (''util.h'', RegularFile)]),
        (''temp'', Other)]"

definition example_tree_permuted :: fsnode where
  "example_tree_permuted =
     Directory
       [(''source'', Directory [(''util.h'', RegularFile), (''util.cpp'', RegularFile)]),
        (''temp'', Other), (''Zebra.h'', RegularFile), (''main.cpp'', RegularFile),
        (''notes.txt'', RegularFile)]"

definition example_solution :: SolutionData where
  "example_solution =
     \<lparr>workingDir = ''work'', exclude = [''NOTES.TXT''], sourcefolders = [''./*.*''],
      sd_codefiles = []\<rparr>"



text \<open>
  A source folder \<^verbatim>\<open>a\<close> that holds the directory \<^verbatim>\<open>b\<close> with the file \<^verbatim>\<open>c.cpp\<close>
  and, beside it, a file whose name is \<^verbatim>\<open>b\c.cpp\<close> (a backslash is an ordinary
  character of a file name where the separator is the slash), listed in two orders.
\<close>

definition tie_tree :: fsnode where
  "tie_tree =
     Directory
       [(''b'', Directory [(''c.cpp'', RegularFile)]),
        (''b'' @ [bslash] @ ''c.cpp'', RegularFile)]"

definition tie_tree_permuted :: fsnode where
  "tie_tree_permuted =
     Directory
       [(''b'' @ [bslash] @ ''c.cpp'', RegularFile),
        (''b'', Directory [(''c.cpp'', RegularFile)])]"

definition tie_solution :: SolutionData where
  "tie_solution =
     \<lparr>workingDir = ''work'', exclude = [], sourcefolders = [''a/*.*''], sd_codefiles = []\<rparr>"


section \<open>Properties of the platform enumeration\<close>

lemma is_expandable_cases:
  "is_expandable F \<longleftrightarrow>
     F = windows \<or> F = msdos \<or> F = macosx \<or> F = macos9 \<or> F = maccarbon \<or>
     F = ios \<or> F = iosemu \<or> F = android"
  by (auto simp: is_expandable_def PLATFORMTYPES_EXPANDED_def)

lemmas platform_preds =
  is_windows_def is_macosx_def is_ios_def is_macos_carbon_def is_macos_classic_def
  is_msdos_def is_android_def

text \<open>
  Claim C3. Platform matching is symmetric: \<open>a.match(b) = b.match(a)\<close> for all
  platforms \<open>a\<close> and \<open>b\<close>.
\<close>

theorem match_symmetric: "match a b = match b a"
  unfolding match_def by (auto simp: eq_commute)

text \<open>
  Claim C2, as stated, fails: the family \<open>iosemu\<close> does not match its own member
  \<open>iosemu32\<close>, and the family \<open>android\<close> matches \<open>shield\<close>, which is outside its
  expansion.
\<close>

theorem match_family_counterexample:
  "is_expandable iosemu \<and> iosemu32 \<in> set (get_expanded iosemu) \<and> \<not> match iosemu iosemu32
   \<and> is_expandable android \<and> shield \<noteq> android \<and> shield \<notin> set (get_expanded android)
   \<and> match android shield"
  by (simp add: is_expandable_def get_expanded_def PLATFORMTYPES_EXPANDED_def match_def
      platform_preds)

lemma match_family_members:
  "is_expandable F \<Longrightarrow> F \<noteq> iosemu \<Longrightarrow> m \<in> set (get_expanded F) \<Longrightarrow> match F m"
  unfolding is_expandable_cases
  by (elim disjE; simp add: get_expanded_def PLATFORMTYPES_EXPANDED_def;
      elim disjE; simp add: match_def platform_preds)

lemma match_family_outsiders:
  "is_expandable F \<Longrightarrow> X \<noteq> F \<Longrightarrow> X \<notin> set (get_expanded F) \<Longrightarrow>
   \<not> (is_ios F \<and> is_ios X) \<Longrightarrow> \<not> (is_android F \<and> is_android X) \<Longrightarrow> \<not> match F X"
  unfolding is_expandable_cases
  by (elim disjE;
      simp add: get_expanded_def PLATFORMTYPES_EXPANDED_def match_def platform_preds; blast?)

text \<open>
  Claim C2, amended. For every family platform \<open>F\<close> other than \<open>iosemu\<close>, \<open>F\<close>
  matches every member of its expansion; and for every family platform \<open>F\<close>, \<open>F\<close>
  does not match a platform \<open>X\<close> that is neither \<open>F\<close>, nor a member of the expansion
  of \<open>F\<close>, nor in the same \<open>is_ios\<close> or \<open>is_android\<close> group as \<open>F\<close>.
\<close>

theorem match_family_aware:
  "is_expandable F \<Longrightarrow>
     (F \<noteq> iosemu \<longrightarrow> (\<forall>m \<in> set (get_expanded F). match F m)) \<and>
     (\<forall>X. X \<noteq> F \<and> X \<notin> set (get_expanded F) \<and> \<not> (is_ios F \<and> is_ios X) \<and>
          \<not> (is_android F \<and> is_android X) \<longrightarrow> \<not> match F X)"
  using match_family_members match_family_outsiders by blast

theorem match_family_aware_witness:
  "is_expandable windows \<and> match windows win32 \<and> match windows win64 \<and>
   \<not> match windows linux \<and> get_expanded windows = [win32, win64]"
  using match_family_aware [of windows]
  by (simp add: is_expandable_def get_expanded_def PLATFORMTYPES_EXPANDED_def platform_preds)

text \<open>
  Claim C10. Whatever the two host probes report, \<open>PlatformTypes.default()\<close> returns
  one of \<open>win32\<close>, \<open>win64\<close> and \<open>linux\<close>, which is not a family platform; and when
  the host is not reported as Windows it returns \<open>linux\<close>, also on a Mac host, since
  the result of the Mac table lookup is dropped.
\<close>

theorem default_is_concrete:
  "PlatformTypes_default w m \<in> {win32, win64, linux} \<and>
   \<not> is_expandable (PlatformTypes_default w m) \<and>
   (\<not> truthy w \<longrightarrow> PlatformTypes_default w m = linux)"
  by (simp add: PlatformTypes_default_def is_expandable_cases)

theorem default_is_concrete_witness:
  "\<not> truthy ProbeFalse \<and> truthy (ProbeStr ''x64'') \<and>
   PlatformTypes_default ProbeFalse (ProbeStr ''x64'') = linux \<and>
   mac_table_get (ProbeStr ''x64'') = macosxintel64"
  using default_is_concrete [of ProbeFalse "ProbeStr ''x64''"]
  by (simp add: mac_table_get_def mac_table_def)

section \<open>Properties of the lookup functions\<close>

text \<open>
  What the lookups do return: a member other than the first is returned unchanged, and
  for \<open>IDETypes\<close> and \<open>PlatformTypes\<close> a string that is a member name once lowered
  gives that member (for \<open>ProjectTypes\<close>, a string that is a member name as it
  stands).
\<close>

lemma enum_value_first:
  "enum_value ((n, first) # members) m = 0 \<longleftrightarrow> m = first"
  by (auto simp: enum_value_def)

lemma platform_member_unchanged:
  "m \<noteq> windows \<Longrightarrow> PlatformTypes_lookup inh (Member m) = Inr (Some m)"
  unfolding PlatformTypes_lookup_def PlatformTypes_members_def
  by (simp add: enum_value_first)

lemma ide_member_unchanged:
  "i \<noteq> vs2003 \<Longrightarrow> IDETypes_lookup host inh (Member i) = Inr (Some i)"
  unfolding IDETypes_lookup_def IDETypes_members_def
  by (simp add: enum_value_first)

lemma project_member_unchanged:
  "t \<noteq> library \<Longrightarrow> ProjectTypes_lookup inh (Member t) = Inr (Some t)"
  unfolding ProjectTypes_lookup_def ProjectTypes_members_def
  by (simp add: enum_value_first)

lemma hasattr_member:
  "map_of members n = Some m \<Longrightarrow> hasattr members declared inh n"
  by (auto simp: hasattr_def dest!: map_of_SomeD intro: rev_image_eqI)

lemma platform_member_name:
  "s \<noteq> [] \<Longrightarrow> map_of PlatformTypes_members (lower s) = Some m \<Longrightarrow>
     PlatformTypes_lookup inh (Name s) = Inr (Some m)"
  by (simp add: PlatformTypes_lookup_def hasattr_member getitem_def)

lemma ide_member_name:
  "s \<noteq> [] \<Longrightarrow> map_of IDETypes_members (lower s) = Some i \<Longrightarrow>
     IDETypes_lookup host inh (Name s) = Inr (Some i)"
  by (simp add: IDETypes_lookup_def hasattr_member getitem_def)

lemma project_member_name:
  "s \<noteq> [] \<Longrightarrow> map_of ProjectTypes_members s = Some t \<Longrightarrow>
     ProjectTypes_lookup inh (Name s) = Inr (Some t)"
  by (simp add: ProjectTypes_lookup_def hasattr_member getitem_def)

text \<open>
  Claim C5 evaluated where the code leaves it. The member with integer value 0 of each
  enumeration (\<open>windows\<close>, \<open>vs2003\<close>, \<open>library\<close>) is false under \<^verbatim>\<open>if name:\<close>, so
  its lookup returns \<^verbatim>\<open>None\<close> instead of the member; \<open>ProjectTypes.lookup\<close> tests the
  member name without lowering it, so \<^verbatim>\<open>'App'\<close> is not found; and the name of a method
  of the class passes \<^verbatim>\<open>hasattr\<close> and raises \<^verbatim>\<open>KeyError\<close>.
\<close>

theorem lookup_failures:
  "PlatformTypes_lookup inh (Member windows) = Inr None \<and>
   IDETypes_lookup host inh (Member vs2003) = Inr None \<and>
   ProjectTypes_lookup inh (Member library) = Inr None \<and>
   (''App'' \<notin> set inh \<longrightarrow> ProjectTypes_lookup inh (Name ''App'') = Inr None) \<and>
   PlatformTypes_lookup inh (Name ''match'') = Inl KeyError"
proof (intro conjI impI)
  show "PlatformTypes_lookup inh (Member windows) = Inr None"
    by (simp add: PlatformTypes_lookup_def enum_value_def PlatformTypes_members_def)
  show "IDETypes_lookup host inh (Member vs2003) = Inr None"
    by (simp add: IDETypes_lookup_def enum_value_def IDETypes_members_def)
  show "ProjectTypes_lookup inh (Member library) = Inr None"
    by (simp add: ProjectTypes_lookup_def enum_value_def ProjectTypes_members_def)
  show "ProjectTypes_lookup inh (Name ''App'') = Inr None" if "''App'' \<notin> set inh"
    using that
    by (simp add: ProjectTypes_lookup_def hasattr_def ProjectTypes_members_def
        ProjectTypes_declared_def PROJECTTYPES_READABLE_def lower_def lower_char_def
        lower_table_def)
  show "PlatformTypes_lookup inh (Name ''match'') = Inl KeyError"
    by (simp add: PlatformTypes_lookup_def hasattr_def PlatformTypes_declared_def
        getitem_def PlatformTypes_members_def lower_def lower_char_def lower_table_def)
qed

theorem lookup_failures_witness:
  "''App'' \<notin> set [''name'', ''value''] \<and>
   ProjectTypes_lookup [''name'', ''value''] (Name ''App'') = Inr None \<and>
   lower ''App'' = ''app'' \<and> map_of ProjectTypes_members ''app'' = Some app \<and>
   PlatformTypes_lookup [''name'', ''value''] (Member windows) = Inr None"
  using lookup_failures [of "[''name'', ''value'']"
      "\<lparr>where_is_visual_studio = (\<lambda>y. False), where_is_xcode = (\<lambda>y. False),
        xcode_table = []\<rparr>"]
  by (simp add: lower_def lower_char_def lower_table_def ProjectTypes_members_def)

section \<open>Properties of the group name\<close>

lemmas str_eval = SourceFile_init_def core_SourceFile_init_def convert_to_windows_slashes_def
  extractgroupname_def core_extractgroupname_def startswith_def bslash_def

lemma rfind_None: "rfind s ch = None \<longleftrightarrow> ch \<notin> set s"
  by (induction s) (auto split: option.splits)

text \<open>A bare base name, with no separator in it, has the empty group name.\<close>

lemma extractgroupname_basename:
  "bslash \<notin> set (filename f) \<Longrightarrow> CHR ''/'' \<notin> set (filename f) \<Longrightarrow> extractgroupname f = []"
  by (simp add: extractgroupname_def rfind_None [THEN iffD2])

text \<open>
  Claim C4 evaluated on its examples. \<^verbatim>\<open>a/b/c.cpp\<close> gives \<^verbatim>\<open>a\b\<close>,
  \<^verbatim>\<open>../../y/z.h\<close> gives \<^verbatim>\<open>y\<close> and a bare base name gives the empty string, as
  the claim says. For \<^verbatim>\<open>./x.cpp\<close> both versions of \<open>extractgroupname\<close> return
  \<^verbatim>\<open>.\<close>, not the empty string: the base name is removed together with its
  separator before the prefix \<^verbatim>\<open>.\\<close> is looked for, so the prefix is no longer
  there. Likewise \<^verbatim>\<open>../x.cpp\<close> gives \<^verbatim>\<open>..\<close>.
\<close>

theorem extractgroupname_examples:
  "extractgroupname (SourceFile_init ''./x.cpp'' d t) = ''.'' \<and>
   core_extractgroupname (core_SourceFile_init ''./x.cpp'' d t') = ''.'' \<and>
   extractgroupname (SourceFile_init ''../x.cpp'' d t) = ''..'' \<and>
   extractgroupname (SourceFile_init ''a/b/c.cpp'' d t) = ''a'' @ [bslash] @ ''b'' \<and>
   extractgroupname (SourceFile_init ''../../y/z.h'' d t) = ''y'' \<and>
   extractgroupname (SourceFile_init ''x.cpp'' d t) = [] \<and>
   extractgroupname (SourceFile_init ''./sub/x.cpp'' d t) = ''sub''"
  by (simp add: str_eval)

section \<open>Properties of chained attributes\<close>

lemma remdups_snoc: "remdups (ys @ [x]) = filter (\<lambda>y. y \<noteq> x) (remdups ys) @ [x]"
  by (induction ys) auto

lemma first_seen_Cons: "first_seen (x # xs) = x # filter (\<lambda>y. y \<noteq> x) (first_seen xs)"
  by (simp add: first_seen_def remdups_snoc rev_filter)

lemma first_seen_Nil: "first_seen [] = []"
  by (simp add: first_seen_def)

lemma unique_from_eq:
  "unique_from seen xs = seen @ filter (\<lambda>y. y \<notin> set seen) (first_seen xs)"
proof (induction xs arbitrary: seen)
  case Nil
  then show ?case by (simp add: first_seen_Nil)
next
  case (Cons x xs)
  show ?case
  proof (cases "x \<in> set seen")
    case True
    have "filter (\<lambda>y. y \<notin> set seen) (filter (\<lambda>y. y \<noteq> x) (first_seen xs))
          = filter (\<lambda>y. y \<notin> set seen) (first_seen xs)"
      using True by (auto intro: filter_cong)
    with True Cons show ?thesis by (simp add: first_seen_Cons)
  next
    case False
    have "filter (\<lambda>y. y \<notin> set (seen @ [x])) (first_seen xs)
          = filter (\<lambda>y. y \<notin> set seen) (filter (\<lambda>y. y \<noteq> x) (first_seen xs))"
      by (auto intro: filter_cong)
    with False Cons show ?thesis by (simp add: first_seen_Cons)
  qed
qed

lemma unique_from_first_seen: "unique_from [] xs = first_seen xs"
  by (simp add: unique_from_eq)

text \<open>
  Claim C1. For a configuration \<open>cfg\<close> whose owning project has the attribute table
  \<open>p\<close>, and every attribute name: \<open>get_chained_value\<close> is the configuration's own
  value when that is set; otherwise it is the project's value, which is empty or
  \<^verbatim>\<open>None\<close> when the project has not set it either. \<open>get_unique_chained_list\<close> is the
  configuration's list followed by the project's list with every repetition of an
  earlier item removed: it has no duplicates and holds exactly the items of both lists.
\<close>

theorem chained_resolution:
  "cfg_project cfg = Some p \<Longrightarrow>
     (\<not> is_empty (cfg_attrs cfg attr) \<longrightarrow> get_chained_value cfg attr = cfg_attrs cfg attr) \<and>
     (is_empty (cfg_attrs cfg attr) \<longrightarrow> get_chained_value cfg attr = p attr) \<and>
     (is_empty (cfg_attrs cfg attr) \<and> is_empty (p attr) \<longrightarrow>
        is_empty (get_chained_value cfg attr)) \<and>
     get_unique_chained_list cfg attr =
       first_seen (as_list (cfg_attrs cfg attr) @ as_list (p attr)) \<and>
     distinct (get_unique_chained_list cfg attr) \<and>
     set (get_unique_chained_list cfg attr) =
       set (as_list (cfg_attrs cfg attr)) \<union> set (as_list (p attr))"
  by (auto simp: get_chained_value_def chain_def get_unique_chained_list_def
      get_chained_list_def unique_from_first_seen first_seen_def)

theorem chained_resolution_witness:
  "cfg_project example_configuration = Some example_project_attrs \<and>
   is_empty (cfg_attrs example_configuration ''profile'') \<and>
   get_chained_value example_configuration ''profile'' = PBool True \<and>
   get_chained_value example_configuration ''define_list''
     = PList [''WIN32'', ''_CONSOLE'', ''WIN32''] \<and>
   is_empty (get_chained_value example_configuration ''debug'') \<and>
   get_unique_chained_list example_configuration ''define_list''
     = [''WIN32'', ''_CONSOLE'', ''NDEBUG'']"
  using chained_resolution [of example_configuration example_project_attrs "''profile''"]
    chained_resolution [of example_configuration example_project_attrs "''define_list''"]
    chained_resolution [of example_configuration example_project_attrs "''debug''"]
  by (simp add: example_configuration_def example_project_attrs_def first_seen_def)

section \<open>Properties of the emitters\<close>

lemmas lower_eval = lower_def lower_char_def lower_table_def

lemma lookup_main:
  "FileTypes_lookup ''main.cpp'' = Some ft_cpp" "FileTypes_lookup ''main.h'' = Some ft_h"
  by (simp_all add: FileTypes_lookup_def splitext_ext_def strip_def is_space_def lower_eval
      FILETYPES_LOOKUP_def)

lemma resolve_main:
  "resolve_folder [''main.cpp'', ''main.h''] [ft_h, ft_cpp, ft_c, ft_x86] =
     [\<lparr>relative_pathname = ''main.cpp'', ftype = ft_cpp\<rparr>,
      \<lparr>relative_pathname = ''main.h'', ftype = ft_h\<rparr>]"
  by (simp add: resolve_folder_def List.map_filter_def lookup_main lower_eval)

lemma foo_exporter_eq:
  "foo_exporter p pt =
    \<lparr>exp_solution = (foo_solution watcom ''win'' p pt)
        \<lparr>watcom_filename := Some ''foowatwin.wmk'',
         project_list := [(foo_project p pt)\<lparr>codefiles :=
            [\<lparr>relative_pathname = ''main.cpp'', ftype = ft_cpp\<rparr>,
             \<lparr>relative_pathname = ''main.h'', ftype = ft_h\<rparr>]\<rparr>]\<rparr>,
     exp_platforms = [p],
     exp_configuration_list =
       [scenario_configuration ''Debug'' p pt, scenario_configuration ''Release'' p pt],
     exp_configuration_names =
       [scenario_configuration ''Debug'' p pt, scenario_configuration ''Release'' p pt]\<rparr>"
  by (simp add: foo_exporter_def watcom_Project_init_def foo_solution_def foo_project_def
      get_file_list_def resolve_main add_project_def add_configuration_def
      scenario_configuration_def)

lemma foo_write_files:
  "write_files (foo_exporter p pt) =
     ['''', ''#'', ''# Object files to work with for the library'', ''#'', '''',
      ''OBJS= $(A)/main.obj'']"
  by (simp add: foo_exporter_eq write_files_def foo_solution_def obj_list_of_def
      object_entry_def convert_to_linux_slashes_def bslash_def drop_last2_def)

lemma foo_all_target:
  "write_all_target (foo_exporter p pt) =
     ['''', ''#'', ''# List the names of all of the final binaries to build'', ''#'', '''',
      ''all: Debug Release .SYMBOLIC'', [tab] @ ''@%null'',
      '''', ''#'', ''# Configurations'', ''#'']
     @ configuration_rule [p] (scenario_configuration ''Debug'' p pt)
     @ configuration_rule [p] (scenario_configuration ''Release'' p pt)
     @ platform_rule [scenario_configuration ''Debug'' p pt, scenario_configuration ''Release'' p pt] p
     @ binary_rule (scenario_configuration ''Debug'' p pt)
     @ binary_rule (scenario_configuration ''Release'' p pt)
     @ ['''', ''#'', ''# Disable building this make file'', ''#'', '''', ''foowatwin.wmk:'',
        [tab] @ ''@%null'']"
  by (simp add: foo_exporter_eq write_all_target_def scenario_configuration_def
      foo_solution_def filename_of_def)

lemma foo_generate:
  "watcom_generate host (foo_solution watcom ''win'' p pt) d =
     (0, exp_solution (foo_exporter p pt),
      save_text_file_if_newer (path_join host ''work'' ''foowatwin.wmk'')
        (snd (watcom_Project_generate host (foo_exporter p pt))) d)"
  by (simp add: watcom_generate_def watcom_SUPPORTED_IDES_def watcom_Project_generate_def
      foo_exporter_def Let_def foo_solution_def code_of_def IDETYPES_CODES_def filename_of_def)

text \<open>
  Claim C9. For the solution \<^verbatim>\<open>foo\<close> with the configurations Debug and Release on a
  platform \<open>p\<close> and one source folder holding \<^verbatim>\<open>main.cpp\<close> and \<^verbatim>\<open>main.h\<close>, the
  Watcom emitter returns 0 and writes one file, \<^verbatim>\<open>foowatwin.wmk\<close>, holding the six
  parts of the make file. The part written by \<open>write_files\<close> lists exactly one object,
  \<^verbatim>\<open>$(A)/main.obj\<close>, which comes from \<^verbatim>\<open>main.cpp\<close>; the header gives none. The file
  has the targets \<^verbatim>\<open>Debug:\<close> and \<^verbatim>\<open>Release:\<close>, and for each configuration a rule
  that makes a binary whose name ends in its short code, \<^verbatim>\<open>dbg\<close> or \<^verbatim>\<open>rel\<close>.
\<close>

theorem watcom_round_trip:
  "fst (watcom_generate host (foo_solution watcom ''win'' p pt) empty_disk) = 0 \<and>
   writes (snd (snd (watcom_generate host (foo_solution watcom ''win'' p pt) empty_disk)))
     = [path_join host ''work'' ''foowatwin.wmk''] \<and>
   files (snd (snd (watcom_generate host (foo_solution watcom ''win'' p pt) empty_disk)))
       (path_join host ''work'' ''foowatwin.wmk'')
     = Some (snd (watcom_Project_generate host (foo_exporter p pt))) \<and>
   snd (watcom_Project_generate host (foo_exporter p pt)) =
     write_header (foo_exporter p pt) @ write_source_dir host (foo_exporter p pt) @ write_rules
     @ write_files (foo_exporter p pt) @ write_all_target (foo_exporter p pt)
     @ write_builds (foo_exporter p pt) \<and>
   write_files (foo_exporter p pt) =
     ['''', ''#'', ''# Object files to work with for the library'', ''#'', '''',
      ''OBJS= $(A)/main.obj''] \<and>
   obj_list_of (resolve_folder [''main.cpp'', ''main.h''] [ft_h, ft_cpp, ft_c, ft_x86])
     = [''main''] \<and>
   ''Debug: Debug'' @ short_code_str p @ '' .SYMBOLIC''
     \<in> set (write_all_target (foo_exporter p pt)) \<and>
   ''Release: Release'' @ short_code_str p @ '' .SYMBOLIC''
     \<in> set (write_all_target (foo_exporter p pt)) \<and>
   [tab] @ ''@%make $(DESTINATION_DIR)'' @ [bslash] @ ''$(PROJECT_NAME)wat'' @
     last3 (short_code_str p) @ ''dbg.'' @ (if pt = library then ''lib'' else ''exe'')
     \<in> set (write_all_target (foo_exporter p pt)) \<and>
   [tab] @ ''@%make $(DESTINATION_DIR)'' @ [bslash] @ ''$(PROJECT_NAME)wat'' @
     last3 (short_code_str p) @ ''rel.'' @ (if pt = library then ''lib'' else ''exe'')
     \<in> set (write_all_target (foo_exporter p pt)) \<and>
   short_code (scenario_configuration ''Debug'' p pt) = ''dbg'' \<and>
   short_code (scenario_configuration ''Release'' p pt) = ''rel''"
proof (intro conjI)
  show "fst (watcom_generate host (foo_solution watcom ''win'' p pt) empty_disk) = 0"
    by (simp add: foo_generate)
  show "writes (snd (snd (watcom_generate host (foo_solution watcom ''win'' p pt) empty_disk)))
     = [path_join host ''work'' ''foowatwin.wmk'']"
    by (simp add: foo_generate save_text_file_if_newer_def empty_disk_def)
  show "files (snd (snd (watcom_generate host (foo_solution watcom ''win'' p pt) empty_disk)))
       (path_join host ''work'' ''foowatwin.wmk'')
     = Some (snd (watcom_Project_generate host (foo_exporter p pt)))"
    by (simp add: foo_generate save_text_file_if_newer_def empty_disk_def)
  show "snd (watcom_Project_generate host (foo_exporter p pt)) =
     write_header (foo_exporter p pt) @ write_source_dir host (foo_exporter p pt) @ write_rules
     @ write_files (foo_exporter p pt) @ write_all_target (foo_exporter p pt)
     @ write_builds (foo_exporter p pt)"
    by (simp add: watcom_Project_generate_def)
  show "write_files (foo_exporter p pt) =
     ['''', ''#'', ''# Object files to work with for the library'', ''#'', '''',
      ''OBJS= $(A)/main.obj'']"
    by (rule foo_write_files)
  show "obj_list_of (resolve_folder [''main.cpp'', ''main.h''] [ft_h, ft_cpp, ft_c, ft_x86])
     = [''main'']"
    by (simp add: resolve_main obj_list_of_def object_entry_def convert_to_linux_slashes_def
        bslash_def)
  show "''Debug: Debug'' @ short_code_str p @ '' .SYMBOLIC''
     \<in> set (write_all_target (foo_exporter p pt))"
    by (simp add: foo_all_target configuration_rule_def scenario_configuration_def)
  show "''Release: Release'' @ short_code_str p @ '' .SYMBOLIC''
     \<in> set (write_all_target (foo_exporter p pt))"
    by (simp add: foo_all_target configuration_rule_def scenario_configuration_def)
  show "[tab] @ ''@%make $(DESTINATION_DIR)'' @ [bslash] @ ''$(PROJECT_NAME)wat'' @
     last3 (short_code_str p) @ ''dbg.'' @ (if pt = library then ''lib'' else ''exe'')
     \<in> set (write_all_target (foo_exporter p pt))"
    by (simp add: foo_all_target binary_rule_def scenario_configuration_def
        configuration_short_code_def)
  show "[tab] @ ''@%make $(DESTINATION_DIR)'' @ [bslash] @ ''$(PROJECT_NAME)wat'' @
     last3 (short_code_str p) @ ''rel.'' @ (if pt = library then ''lib'' else ''exe'')
     \<in> set (write_all_target (foo_exporter p pt))"
    by (simp add: foo_all_target binary_rule_def scenario_configuration_def
        configuration_short_code_def)
  show "short_code (scenario_configuration ''Debug'' p pt) = ''dbg''"
    by (simp add: scenario_configuration_def configuration_short_code_def)
  show "short_code (scenario_configuration ''Release'' p pt) = ''rel''"
    by (simp add: scenario_configuration_def configuration_short_code_def)
qed

theorem watcom_round_trip_witness:
  "''Debug: Debugw32 .SYMBOLIC'' \<in> set (write_all_target (foo_exporter win32 tool)) \<and>
   ''Release: Releasew32 .SYMBOLIC'' \<in> set (write_all_target (foo_exporter win32 tool)) \<and>
   [tab] @ ''@%make $(DESTINATION_DIR)'' @ [bslash] @ ''$(PROJECT_NAME)watw32dbg.exe''
     \<in> set (write_all_target (foo_exporter win32 tool)) \<and>
   [tab] @ ''@%make $(DESTINATION_DIR)'' @ [bslash] @ ''$(PROJECT_NAME)watw32rel.exe''
     \<in> set (write_all_target (foo_exporter win32 tool)) \<and>
   writes (snd (snd (watcom_generate posix_host (foo_solution watcom ''win'' win32 tool)
     empty_disk))) = [''work/foowatwin.wmk'']"
  using watcom_round_trip [of posix_host win32 tool]
  by (simp add: short_code_str_def get_short_code_def PLATFORMTYPES_CODES_def last3_def
      posix_host_def)




section \<open>Properties of the file list\<close>

lemma scan_files:
  "fst (scandirectory h sd r a d n st) = fst st @ files_of_node h sd r a d n"
  "fst (scan_names h sd r a d es f st) = fst st @ files_of_names h sd r a d es"
  by (induction h sd r a d n st and h sd r a d es f st rule: scandirectory_scan_names.induct)
    (auto simp: Let_def split: fsnode.splits option.splits)

lemma files_of_names_append:
  "files_of_names h sd r a d (xs @ ys) = files_of_names h sd r a d xs @ files_of_names h sd r a d ys"
  by (induction xs) (auto split: fsnode.splits option.splits)

lemma mset_files_of_names:
  "mset (files_of_names h sd r a d es) =
     (\<Sum>e\<in>#mset es. mset (files_of_names h sd r a d [e]))"
  by (induction es) (auto split: fsnode.splits option.splits)

lemma files_of_names_perm:
  "mset ps = mset es \<Longrightarrow>
   mset (files_of_names h sd r a d ps) = mset (files_of_names h sd r a d es)"
  by (simp add: mset_files_of_names [of h sd r a d ps] mset_files_of_names [of h sd r a d es])

lemma files_of_names_related:
  assumes "list_all2 (\<lambda>x y. fst x = fst y \<and> same_contents (snd x) (snd y) \<and>
             (\<forall>d. mset (files_of_node h sd r a d (snd x)) = mset (files_of_node h sd r a d (snd y))))
           es ps"
  shows "mset (files_of_names h sd r a d es) = mset (files_of_names h sd r a d ps)"
  using assms
proof (induction es ps rule: list_all2_induct)
  case Nil
  then show ?case by simp
next
  case (Cons x xs y ys)
  obtain b n where x: "x = (b, n)" by (cases x)
  obtain b' n' where y: "y = (b', n')" by (cases y)
  from Cons.hyps(1) x y have b: "b' = b" and sc: "same_contents n n'"
    and ms: "\<And>d. mset (files_of_node h sd r a d n) = mset (files_of_node h sd r a d n')"
    by auto
  from sc show ?case
    using Cons.IH ms by (cases rule: same_contents.cases) (auto simp: x y b)
qed

lemma same_contents_files:
  "same_contents n n' \<Longrightarrow>
   mset (files_of_node h sd r a d n) = mset (files_of_node h sd r a d n')"
proof (induction arbitrary: d rule: same_contents.induct)
  case same_file
  then show ?case by simp
next
  case same_other
  then show ?case by simp
next
  case (same_directory es ps es')
  have "list_all2 (\<lambda>x y. fst x = fst y \<and> same_contents (snd x) (snd y) \<and>
             (\<forall>d. mset (files_of_node h sd r a d (snd x)) = mset (files_of_node h sd r a d (snd y))))
           es ps"
    using same_directory.IH by (rule list_all2_mono) auto
  then have "mset (files_of_names h sd r a d es) = mset (files_of_names h sd r a d ps)"
    by (rule files_of_names_related)
  also have "\<dots> = mset (files_of_names h sd r a d es')"
    using same_directory.hyps by (rule files_of_names_perm)
  finally show ?case by simp
qed

lemma scan_dirs:
  "snd (scandirectory h sd r a d n st) = snd st @ dirs_of_node h sd r a d n"
  "snd (scan_names h sd r a d es f st) = snd st @ dirs_of_names h sd r a d es f"
  by (induction h sd r a d n st and h sd r a d es f st rule: scandirectory_scan_names.induct)
    (auto simp: Let_def split: fsnode.splits option.splits)

lemma scandirectory_at_eq:
  "scandirectory_at h sd r a d st = (fst st @ files_at h sd r a d, snd st @ dirs_at h sd r a d)"
  by (auto simp: scandirectory_at_def files_at_def dirs_at_def scan_files scan_dirs
      prod_eq_iff split: option.splits)

lemma scan_folders_eq:
  "scan_folders h sd a items st =
     (fst st @ files_of_folders h sd a items, snd st @ dirs_of_folders h sd a items)"
  by (induction items arbitrary: st) (auto simp: scandirectory_at_eq)

lemma getfilelist_eq:
  "getfilelist h sd a =
     (sort_key core_filename (sd_codefiles sd @ files_of_folders h sd a (sourcefolders sd)),
      dirs_of_folders h sd a (sourcefolders sd))"
  by (simp add: getfilelist_def scan_folders_eq Let_def)








lemma filter_same_key:
  assumes "inj_on f (set zs)" and "k \<in> set zs"
  shows "filter (\<lambda>x. f k = f x) zs = replicate (count (mset zs) k) k"
proof -
  have "filter (\<lambda>x. f k = f x) zs = filter (\<lambda>x. k = x) zs"
    using assms by (intro filter_cong) (auto dest: inj_onD)
  also have "\<dots> = replicate (count (mset zs) k) k"
    by (induction zs) auto
  finally show ?thesis .
qed

lemma sort_key_stable_unique:
  assumes "mset xs = mset ys" and "inj_on f (set xs)"
  shows "sort_key f xs = sort_key f ys"
proof -
  have sets: "set ys = set xs" using assms(1) by (metis set_mset_mset)
  have "sort_key f ys = sort_key f xs"
  proof (rule properties_for_sort_key)
    show "mset (sort_key f xs) = mset ys" using assms(1) by simp
    show "sorted (map f (sort_key f xs))" by simp
  next
    fix k assume "k \<in> set (sort_key f xs)"
    then have k: "k \<in> set xs" by simp
    have "filter (\<lambda>x. f k = f x) (sort_key f xs) = replicate (count (mset xs) k) k"
      using filter_same_key [of f "sort_key f xs" k] assms(2) k by simp
    moreover have "filter (\<lambda>x. f k = f x) ys = replicate (count (mset ys) k) k"
      using filter_same_key [of f ys k] assms(2) k sets by simp
    ultimately show "filter (\<lambda>x. f k = f x) (sort_key f xs) = filter (\<lambda>x. f k = f x) ys"
      using assms(1) by simp
  qed
  then show ?thesis by simp
qed

lemma files_of_node_host:
  assumes "os_sep h' = os_sep h" "os_path_join h' = os_path_join h"
  shows "files_of_node h' sd r a d n = files_of_node h sd r a d n"
    and "files_of_names h' sd r a d es = files_of_names h sd r a d es"
  using assms
  by (induction h sd r a d n and h sd r a d es rule: files_of_node_files_of_names.induct)
    (auto simp: search_dir_def split: fsnode.splits option.splits)

lemma files_at_same:
  assumes "os_sep h' = os_sep h" "os_path_join h' = os_path_join h"
    and "\<forall>p. rel_option same_contents (lookup_path h p) (lookup_path h' p)"
  shows "mset (files_at h' sd r a d) = mset (files_at h sd r a d)"
proof -
  have sdir: "search_dir h' sd d = search_dir h sd d"
    using assms(2) by (simp add: search_dir_def)
  have rel: "rel_option same_contents (lookup_path h (search_dir h sd d))
               (lookup_path h' (search_dir h sd d))"
    using assms(3) by blast
  show ?thesis
  proof (cases "lookup_path h (search_dir h sd d)")
    case None
    with rel show ?thesis by (cases "lookup_path h' (search_dir h sd d)") (auto simp: files_at_def sdir)
  next
    case (Some n)
    with rel obtain n' where n': "lookup_path h' (search_dir h sd d) = Some n'"
      and sc: "same_contents n n'"
      by (cases "lookup_path h' (search_dir h sd d)") auto
    have "mset (files_of_node h' sd r a d n') = mset (files_of_node h sd r a d n')"
      using files_of_node_host(1) [OF assms(1,2)] by simp
    also have "\<dots> = mset (files_of_node h sd r a d n)"
      using same_contents_files [OF sc] by simp
    finally show ?thesis by (simp add: files_at_def sdir Some n')
  qed
qed

lemma files_of_folders_same:
  assumes "os_sep h' = os_sep h" "os_path_join h' = os_path_join h"
    and "\<forall>p. rel_option same_contents (lookup_path h p) (lookup_path h' p)"
  shows "mset (files_of_folders h' sd a items) = mset (files_of_folders h sd a items)"
  by (induction items) (auto simp: files_at_same [OF assms])

text \<open>
  Where the listing order does not matter. Take two runs on hosts with the same
  separator and path join whose file systems hold the same contents, each directory
  listing of one being a rearrangement of the other's. If no two different entries
  collected in the first run have the same file name, both runs return the same ordered
  list of source files.
\<close>

lemma getfilelist_deterministic:
  assumes "os_sep h' = os_sep h" and "os_path_join h' = os_path_join h"
    and "\<forall>p. rel_option same_contents (lookup_path h p) (lookup_path h' p)"
    and "inj_on core_filename
           (set (fst (scan_folders h sd a (sourcefolders sd) (sd_codefiles sd, []))))"
  shows "fst (getfilelist h' sd a) = fst (getfilelist h sd a)"
proof -
  let ?xs = "sd_codefiles sd @ files_of_folders h sd a (sourcefolders sd)"
  let ?ys = "sd_codefiles sd @ files_of_folders h' sd a (sourcefolders sd)"
  have "mset ?xs = mset ?ys"
    using files_of_folders_same [OF assms(1-3)] by simp
  moreover have "inj_on core_filename (set ?xs)"
    using assms(4) by (simp add: scan_folders_eq)
  ultimately have "sort_key core_filename ?xs = sort_key core_filename ?ys"
    by (rule sort_key_stable_unique)
  then show ?thesis by (simp add: getfilelist_eq)
qed

lemmas scan_eval =
  getfilelist_def scandirectory_at_def search_dir_def rooted_host_def excluded_def
  classify_def defaultcodeextensions_def endswith_def core_SourceFile_init_def
  convert_to_windows_slashes_def lower_def lower_char_def lower_table_def bslash_def Let_def




lemma example_same_contents: "same_contents example_tree example_tree_permuted"
  unfolding example_tree_def example_tree_permuted_def
  by (rule same_directory [where ps =
        "[(''main.cpp'', RegularFile), (''Zebra.h'', RegularFile), (''notes.txt'', RegularFile),
          (''source'', Directory [(''util.h'', RegularFile), (''util.cpp'', RegularFile)]),
          (''temp'', Other)]"])
    (auto intro!: same_contents.intros
       same_directory [where ps = "[(''util.cpp'', RegularFile), (''util.h'', RegularFile)]"])

lemma getfilelist_deterministic_example:
  "same_contents example_tree example_tree_permuted \<and>
   fst (getfilelist (rooted_host ''work'' example_tree_permuted) example_solution
          [core_cpp, core_h])
     = fst (getfilelist (rooted_host ''work'' example_tree) example_solution
          [core_cpp, core_h]) \<and>
   snd (getfilelist (rooted_host ''work'' example_tree_permuted) example_solution
          [core_cpp, core_h]) = [''./source'', ''.'']"
proof -
  have inj: "inj_on core_filename
     (set (fst (scan_folders (rooted_host ''work'' example_tree) example_solution
        [core_cpp, core_h] (sourcefolders example_solution)
        (sd_codefiles example_solution, []))))"
    by (simp add: scan_eval example_tree_def example_solution_def)
  have rel: "\<forall>p. rel_option same_contents
               (lookup_path (rooted_host ''work'' example_tree) p)
               (lookup_path (rooted_host ''work'' example_tree_permuted) p)"
    using example_same_contents by (simp add: rooted_host_def)
  have "fst (getfilelist (rooted_host ''work'' example_tree_permuted) example_solution
          [core_cpp, core_h])
     = fst (getfilelist (rooted_host ''work'' example_tree) example_solution
          [core_cpp, core_h])"
    by (rule getfilelist_deterministic [OF _ _ rel inj]) (simp_all add: rooted_host_def)
  moreover have "snd (getfilelist (rooted_host ''work'' example_tree_permuted)
      example_solution [core_cpp, core_h]) = [''./source'', ''.'']"
    by (simp add: scan_eval example_tree_permuted_def example_solution_def)
  ultimately show ?thesis using example_same_contents by simp
qed

lemma tie_same_contents: "same_contents tie_tree tie_tree_permuted"
  unfolding tie_tree_def tie_tree_permuted_def
  by (rule same_directory [where ps =
        "[(''b'', Directory [(''c.cpp'', RegularFile)]),
          (''b'' @ [bslash] @ ''c.cpp'', RegularFile)]"])
    (auto intro!: same_contents.intros
       same_directory [where ps = "[(''c.cpp'', RegularFile)]"])

text \<open>
  Claim C7 evaluated where the code leaves it. The folder \<^verbatim>\<open>a\<close> holds the directory
  \<^verbatim>\<open>b\<close> with \<^verbatim>\<open>c.cpp\<close> and a file named \<^verbatim>\<open>b\c.cpp\<close>. Both entries get the
  file name \<^verbatim>\<open>a\b\c.cpp\<close> but different directories; the sort is stable and
  compares the file names only, so the two entries come out in the order in which the
  directory listing reported them: two runs over the same contents return different
  lists.
\<close>

theorem getfilelist_listing_order_ties:
  "same_contents tie_tree tie_tree_permuted \<and>
   map core_directory (fst (getfilelist (rooted_host ''work/a'' tie_tree) tie_solution
     [core_cpp])) = [''work/a/b'', ''work/a''] \<and>
   map core_directory (fst (getfilelist (rooted_host ''work/a'' tie_tree_permuted) tie_solution
     [core_cpp])) = [''work/a'', ''work/a/b''] \<and>
   fst (getfilelist (rooted_host ''work/a'' tie_tree) tie_solution [core_cpp])
     \<noteq> fst (getfilelist (rooted_host ''work/a'' tie_tree_permuted) tie_solution [core_cpp])"
  using tie_same_contents
  by (simp add: scan_eval tie_tree_def tie_tree_permuted_def tie_solution_def)

end
